theory Spec2Isabelle
  imports Complex_Main "HOL-Library.AList"
begin

section \<open>Python values and exceptions\<close>

text \<open>
  The workflow and the host's schema payload are what \<^verbatim>\<open>json.loads\<close> produces: nested
  dicts with string keys, lists, strings, ints, booleans and \<^verbatim>\<open>None\<close>. A dict is an
  association list in insertion order; Python keeps keys unique, which is the
  predicate \<open>distinct (map fst d)\<close> wherever a statement needs it. Strings are lists of
  code points below 256. Floating-point literals are not part of the value type, and an
  int of a workflow or a payload is one that \<^verbatim>\<open>json.loads\<close> yields: within the
  interpreter's limit on the digits of a conversion.
  Objects are values here: two nodes never share one \<^verbatim>\<open>inputs\<close> dict.
\<close>

datatype error = TypeError | AttributeError | KeyError | ValueError

datatype json =
    JNull
  | JBool bool
  | JInt int
  | JStr string
  | JList "json list"
  | JDict "(string \<times> json) list"

text \<open>\<^verbatim>\<open>bool(v)\<close>, the test behind \<^verbatim>\<open>if not v\<close>.\<close>

fun truthy :: "json \<Rightarrow> bool" where
  "truthy JNull = False"
| "truthy (JBool b) = b"
| "truthy (JInt i) = (i \<noteq> 0)"
| "truthy (JStr s) = (s \<noteq> [])"
| "truthy (JList xs) = (xs \<noteq> [])"
| "truthy (JDict d) = (d \<noteq> [])"

fun is_dict :: "json \<Rightarrow> bool" where
  "is_dict (JDict d) = True"
| "is_dict v = False"

text \<open>\<^verbatim>\<open>k in d\<close> for a dict with string keys.\<close>

definition has_key :: "string \<Rightarrow> (string \<times> 'a) list \<Rightarrow> bool" where
  "has_key k d = (k \<in> set (map fst d))"

subsection \<open>\<^verbatim>\<open>str\<close> and \<^verbatim>\<open>repr\<close>\<close>

definition digit_char :: "nat \<Rightarrow> char" where
  "digit_char n = ''0123456789abcdef'' ! n"

fun dec_nat :: "nat \<Rightarrow> string" where
  "dec_nat n = (if n < 10 then [digit_char n] else dec_nat (n div 10) @ [digit_char (n mod 10)])"

declare dec_nat.simps [simp del]

definition str_int :: "int \<Rightarrow> string" where
  "str_int i = (if i < 0 then CHR ''-'' # dec_nat (nat (- i)) else dec_nat (nat i))"

definition printable :: "char \<Rightarrow> bool" where
  "printable c = (let n = (of_char c :: nat) in
     32 \<le> n \<and> n \<noteq> 127 \<and> \<not> (128 \<le> n \<and> n \<le> 160) \<and> n \<noteq> 173)"

definition escape_char :: "char \<Rightarrow> char \<Rightarrow> string" where
  "escape_char q c =
     (if c = q \<or> c = CHR 0x5C then [CHR 0x5C, c]
      else if c = CHR 0x09 then [CHR 0x5C, CHR ''t'']
      else if c = CHR 0x0A then [CHR 0x5C, CHR ''n'']
      else if c = CHR 0x0D then [CHR 0x5C, CHR ''r'']
      else if \<not> printable c then
        [CHR 0x5C, CHR ''x'', digit_char (of_char c div 16), digit_char (of_char c mod 16)]
      else [c])"

text \<open>\<^verbatim>\<open>repr(s)\<close> of a string: single quotes, unless the string has one and no double quote.\<close>

definition repr_str :: "string \<Rightarrow> string" where
  "repr_str s =
     (let q = (if CHR 0x27 \<in> set s \<and> CHR 0x22 \<notin> set s then CHR 0x22 else CHR 0x27)
      in q # concat (map (escape_char q) s) @ [q])"

fun join :: "string \<Rightarrow> string list \<Rightarrow> string" where
  "join sep [] = []"
| "join sep [x] = x"
| "join sep (x # y # ys) = x @ sep @ join sep (y # ys)"

fun py_repr :: "json \<Rightarrow> string"
  and repr_elems :: "json list \<Rightarrow> string list"
  and repr_items :: "(string \<times> json) list \<Rightarrow> string list" where
  "py_repr JNull = ''None''"
| "py_repr (JBool b) = (if b then ''True'' else ''False'')"
| "py_repr (JInt i) = str_int i"
| "py_repr (JStr s) = repr_str s"
| "py_repr (JList xs) = ''['' @ join '', '' (repr_elems xs) @ '']''"
| "py_repr (JDict d) = ''{'' @ join '', '' (repr_items d) @ ''}''"
| "repr_elems [] = []"
| "repr_elems (x # xs) = py_repr x # repr_elems xs"
| "repr_items [] = []"
| "repr_items ((k, v) # kvs) = (repr_str k @ '': '' @ py_repr v) # repr_items kvs"

text \<open>\<^verbatim>\<open>str(v)\<close>: a string is itself, everything else prints as its \<^verbatim>\<open>repr\<close>.\<close>

fun py_str :: "json \<Rightarrow> string" where
  "py_str (JStr s) = s"
| "py_str v = py_repr v"

subsection \<open>\<^verbatim>\<open>int(s)\<close> on a string\<close>









section \<open>WorkflowManipulator\<close>

record manipulator =
  workflow :: "(string \<times> json) list"
  next_node_id :: int





text \<open>A two-element list whose first element prints as \<open>x\<close>: what \<^verbatim>\<open>remove_node\<close> deletes.\<close>

fun links_to :: "string \<Rightarrow> json \<Rightarrow> bool" where
  "links_to x (JList [a, b]) = (py_str a = x)"
| "links_to x v = False"

text \<open>
  The inner loop of \<^verbatim>\<open>remove_node\<close>, over \<^verbatim>\<open>list(inputs.items())\<close>: one round, then
  the loop.
\<close>

definition strip_step :: "string \<Rightarrow> string \<times> json \<Rightarrow> (string \<times> json) list \<Rightarrow> (string \<times> json) list" where
  "strip_step x kv d = (if links_to x (snd kv) then AList.delete (fst kv) d else d)"

definition strip_inputs :: "string \<Rightarrow> (string \<times> json) list \<Rightarrow> (string \<times> json) list" where
  "strip_inputs x inputs = fold (strip_step x) inputs inputs"

text \<open>
  One round of the outer loop. \<^verbatim>\<open>node.get\<close> needs a dict, and so does
  \<^verbatim>\<open>inputs.items()\<close>; a node without \<^verbatim>\<open>inputs\<close> gets a fresh empty dict that is
  dropped again.
\<close>

definition strip_node :: "string \<Rightarrow> json \<Rightarrow> error + json" where
  "strip_node x node =
     (case node of
        JDict flds \<Rightarrow>
          (case map_of flds ''inputs'' of
             None \<Rightarrow> Inr node
           | Some (JDict inputs) \<Rightarrow>
               Inr (JDict (AList.update ''inputs'' (JDict (strip_inputs x inputs)) flds))
           | Some other \<Rightarrow> Inl AttributeError)
      | other \<Rightarrow> Inl AttributeError)"

text \<open>The outer loop: an exception leaves the nodes before it stripped and the rest as they were.\<close>

fun strip_all :: "string \<Rightarrow> (string \<times> json) list \<Rightarrow> (string \<times> json) list \<times> error option" where
  "strip_all x [] = ([], None)"
| "strip_all x ((k, node) # rest) =
     (case strip_node x node of
        Inl e \<Rightarrow> ((k, node) # rest, Some e)
      | Inr node' \<Rightarrow> (case strip_all x rest of (rest', r) \<Rightarrow> ((k, node') # rest', r)))"

definition remove_node :: "string \<Rightarrow> manipulator \<Rightarrow> manipulator \<times> (error + bool)" where
  "remove_node node_id m =
     (if \<not> has_key node_id (workflow m) then (m, Inr False)
      else (case strip_all node_id (AList.delete node_id (workflow m)) of
              (wfl', r) \<Rightarrow>
                (m\<lparr>workflow := wfl'\<rparr>, (case r of None \<Rightarrow> Inr True | Some e \<Rightarrow> Inl e))))"

text \<open>
  \<^verbatim>\<open>node["inputs"][input_name] = value\<close> on a node: subscripting a non-dict with a
  string is \<^verbatim>\<open>TypeError\<close>, a dict without the key \<^verbatim>\<open>inputs\<close> is \<^verbatim>\<open>KeyError\<close>, and
  item assignment on a non-dict is \<^verbatim>\<open>TypeError\<close>.
\<close>

definition set_node_input :: "string \<Rightarrow> json \<Rightarrow> json \<Rightarrow> error + json" where
  "set_node_input input_name v node =
     (case node of
        JDict flds \<Rightarrow>
          (case map_of flds ''inputs'' of
             None \<Rightarrow> Inl KeyError
           | Some (JDict inputs) \<Rightarrow>
               Inr (JDict (AList.update ''inputs'' (JDict (AList.update input_name v inputs)) flds))
           | Some other \<Rightarrow> Inl TypeError)
      | other \<Rightarrow> Inl TypeError)"

definition modify_input ::
  "string \<Rightarrow> string \<Rightarrow> json \<Rightarrow> manipulator \<Rightarrow> manipulator \<times> (error + bool)" where
  "modify_input node_id input_name v m =
     (case map_of (workflow m) node_id of
        None \<Rightarrow> (m, Inr False)
      | Some node \<Rightarrow>
          (case set_node_input input_name v node of
             Inl e \<Rightarrow> (m, Inl e)
           | Inr node' \<Rightarrow> (m\<lparr>workflow := AList.update node_id node' (workflow m)\<rparr>, Inr True)))"

definition connect_nodes ::
  "string \<Rightarrow> int \<Rightarrow> string \<Rightarrow> string \<Rightarrow> manipulator \<Rightarrow> manipulator \<times> (error + bool)" where
  "connect_nodes source_node_id source_output_slot target_node_id target_input_name m =
     (case map_of (workflow m) target_node_id of
        None \<Rightarrow> (m, Inr False)
      | Some node \<Rightarrow>
          (case set_node_input target_input_name
                  (JList [JStr source_node_id, JInt source_output_slot]) node of
             Inl e \<Rightarrow> (m, Inl e)
           | Inr node' \<Rightarrow> (m\<lparr>workflow := AList.update target_node_id node' (workflow m)\<rparr>, Inr True)))"

text \<open>
  \<^verbatim>\<open>k in v\<close> for a string \<open>k\<close> and any value: keys of a dict, elements of a list,
  substrings of a string; \<^verbatim>\<open>TypeError\<close> for a value that is not a container.
\<close>

fun is_substring :: "string \<Rightarrow> string \<Rightarrow> bool" where
  "is_substring k [] = (k = [])"
| "is_substring k (c # cs) = (take (length k) (c # cs) = k \<or> is_substring k cs)"

fun py_contains :: "string \<Rightarrow> json \<Rightarrow> error + bool" where
  "py_contains k (JDict d) = Inr (has_key k d)"
| "py_contains k (JList xs) = Inr (JStr k \<in> set xs)"
| "py_contains k (JStr s) = Inr (is_substring k s)"
| "py_contains k v = Inl TypeError"

text \<open>\<^verbatim>\<open>d.get(k, dflt)\<close>.\<close>

definition get_or :: "(string \<times> 'a) list \<Rightarrow> string \<Rightarrow> 'a \<Rightarrow> 'a" where
  "get_or d k dflt = (case map_of d k of None \<Rightarrow> dflt | Some v \<Rightarrow> v)"

text \<open>
  The manipulator's own \<^verbatim>\<open>validate\<close>. Each message it appends is one of three
  templates; \<open>defect\<close> names the template and its fields, \<open>render_defect\<close> is the
  f-string.
\<close>

datatype defect =
    MissingClassType string
  | MissingInputs string
  | DanglingLink string string string

fun render_defect :: "defect \<Rightarrow> string" where
  "render_defect (MissingClassType nid) =
     ''Node '' @ nid @ '': missing '' @ [CHR 0x27] @ ''class_type'' @ [CHR 0x27]"
| "render_defect (MissingInputs nid) =
     ''Node '' @ nid @ '': missing '' @ [CHR 0x27] @ ''inputs'' @ [CHR 0x27]"
| "render_defect (DanglingLink nid input_name source_id) =
     ''Node '' @ nid @ '': input '' @ [CHR 0x27] @ input_name @ [CHR 0x27] @
     '' references non-existent node '' @ [CHR 0x27] @ source_id @ [CHR 0x27]"

text \<open>The connection check on one input of node \<open>nid\<close>.\<close>

fun dangling :: "(string \<times> json) list \<Rightarrow> string \<Rightarrow> string \<times> json \<Rightarrow> defect list" where
  "dangling wfl nid (input_name, JList [a, b]) =
     (if has_key (py_str a) wfl then [] else [DanglingLink nid input_name (py_str a)])"
| "dangling wfl nid (input_name, v) = []"

text \<open>One round of the loop over the nodes.\<close>

definition node_defects :: "(string \<times> json) list \<Rightarrow> string \<times> json \<Rightarrow> error + defect list" where
  "node_defects wfl kn =
     (case py_contains ''class_type'' (snd kn) of
        Inl e \<Rightarrow> Inl e
      | Inr has_ct \<Rightarrow>
          (let e1 = (if has_ct then [] else [MissingClassType (fst kn)]) in
           case py_contains ''inputs'' (snd kn) of
             Inl e \<Rightarrow> Inl e
           | Inr has_in \<Rightarrow>
               if \<not> has_in then Inr (e1 @ [MissingInputs (fst kn)])
               else (case snd kn of
                       JDict flds \<Rightarrow>
                         (case get_or flds ''inputs'' (JDict []) of
                            JDict inputs \<Rightarrow> Inr (e1 @ concat (map (dangling wfl (fst kn)) inputs))
                          | other \<Rightarrow> Inl AttributeError)
                     | other \<Rightarrow> Inl AttributeError)))"

text \<open>A loop that appends what each round yields; an exception ends it.\<close>

fun collect :: "('a \<Rightarrow> error + 'b list) \<Rightarrow> 'a list \<Rightarrow> error + 'b list" where
  "collect f [] = Inr []"
| "collect f (x # xs) =
     (case f x of
        Inl e \<Rightarrow> Inl e
      | Inr ys \<Rightarrow> (case collect f xs of Inl e \<Rightarrow> Inl e | Inr zs \<Rightarrow> Inr (ys @ zs)))"

definition self_defects :: "manipulator \<Rightarrow> error + defect list" where
  "self_defects m = collect (node_defects (workflow m)) (workflow m)"

definition manipulator_validate :: "manipulator \<Rightarrow> error + bool \<times> string list" where
  "manipulator_validate m =
     (case self_defects m of
        Inl e \<Rightarrow> Inl e
      | Inr ds \<Rightarrow> Inr (ds = [], map render_defect ds))"

section \<open>NodeRegistry\<close>

record input_definition =
  name :: string
  type :: string
  required :: bool
  default_val :: json
  min_val :: json
  max_val :: json
  options :: "json list option"

record node_definition =
  class_type :: string
  category :: json
  display_name :: json
  description :: json
  inputs_required :: "(string \<times> input_definition) list"
  inputs_optional :: "(string \<times> input_definition) list"
  output_types :: "json list"
  output_names :: "json list"

text \<open>\<^verbatim>\<open>_last_fetch\<close> and the clock are rationals; \<^verbatim>\<open>CACHE_TTL\<close> is 300.\<close>

record node_registry =
  nodes :: "(string \<times> node_definition) list"
  last_fetch :: rat
  fetched :: bool

definition new_registry :: node_registry where
  "new_registry = \<lparr>nodes = [], last_fetch = 0, fetched = False\<rparr>"

definition parse_input_spec :: "string \<Rightarrow> json \<Rightarrow> bool \<Rightarrow> input_definition" where
  "parse_input_spec nm spec req =
     (let input_def = \<lparr>name = nm, type = ''UNKNOWN'', required = req, default_val = JNull,
                        min_val = JNull, max_val = JNull, options = None\<rparr>
      in case spec of
           JList (type_info # others) \<Rightarrow>
             (let constraints = (case others of JDict c # rest \<Rightarrow> c | other \<Rightarrow> []);
                  typed = (case type_info of
                             JStr s \<Rightarrow> input_def\<lparr>type := s\<rparr>
                           | JList opts \<Rightarrow> input_def\<lparr>type := ''COMBO'', options := Some opts\<rparr>
                           | other \<Rightarrow> input_def)
              in typed\<lparr>default_val := get_or constraints ''default'' JNull,
                       min_val := get_or constraints ''min'' JNull,
                       max_val := get_or constraints ''max'' JNull\<rparr>)
         | other \<Rightarrow> input_def)"

text \<open>One section of the \<^verbatim>\<open>input\<close> record; a section that is not a dict is skipped.\<close>

definition parse_section :: "(string \<times> json) list \<Rightarrow> string \<Rightarrow> bool \<Rightarrow> (string \<times> input_definition) list" where
  "parse_section input_info section req =
     (case get_or input_info section (JDict []) of
        JDict section_data \<Rightarrow>
          fold (\<lambda>kv acc. AList.update (fst kv) (parse_input_spec (fst kv) (snd kv) req) acc)
            section_data []
      | other \<Rightarrow> [])"

definition list_or_empty :: "json \<Rightarrow> json list" where
  "list_or_empty v = (case v of JList xs \<Rightarrow> xs | other \<Rightarrow> [])"

text \<open>\<^verbatim>\<open>info.get\<close> and \<^verbatim>\<open>input_info.get\<close> need dicts.\<close>

definition parse_node_info :: "string \<Rightarrow> json \<Rightarrow> error + node_definition" where
  "parse_node_info ct info =
     (case info of
        JDict i \<Rightarrow>
          (case get_or i ''input'' (JDict []) of
             JDict input_info \<Rightarrow>
               Inr \<lparr>class_type = ct,
                    category = get_or i ''category'' (JStr []),
                    display_name = get_or i ''display_name'' (JStr ct),
                    description = get_or i ''description'' (JStr []),
                    inputs_required = parse_section input_info ''required'' True,
                    inputs_optional = parse_section input_info ''optional'' False,
                    output_types = list_or_empty (get_or i ''output'' (JList [])),
                    output_names = list_or_empty (get_or i ''output_name'' (JList []))\<rparr>
           | other \<Rightarrow> Inl AttributeError)
      | other \<Rightarrow> Inl AttributeError)"

text \<open>
  What the one network call yields: an exception of the session or the request, or a
  response with its status and its body as \<^verbatim>\<open>response.json()\<close> decodes it (\<open>None\<close>
  when decoding raises).
\<close>

datatype fetch_outcome = NetworkError | Timeout | Response int "json option"

text \<open>
  The loop that fills \<^verbatim>\<open>self._nodes\<close>, started on the empty dict: an exception of
  \<^verbatim>\<open>_parse_node_info\<close> leaves the entries stored so far.
\<close>

fun parse_all ::
  "(string \<times> json) list \<Rightarrow> (string \<times> node_definition) list \<Rightarrow>
   (string \<times> node_definition) list \<times> error option" where
  "parse_all [] acc = (acc, None)"
| "parse_all ((ct, info) # rest) acc =
     (case parse_node_info ct info of
        Inl e \<Rightarrow> (acc, Some e)
      | Inr node_def \<Rightarrow> parse_all rest (AList.update ct node_def acc))"

text \<open>
  \<^verbatim>\<open>fetch\<close>, given the clock and what the network call would yield. Only the request
  and the decoding are inside \<^verbatim>\<open>try\<close>; \<^verbatim>\<open>self._nodes = {}\<close> and the parsing loop
  come after it.
\<close>

definition fetch :: "rat \<Rightarrow> fetch_outcome \<Rightarrow> node_registry \<Rightarrow> node_registry \<times> (error + bool)" where
  "fetch now outcome reg =
     (if fetched reg \<and> now - last_fetch reg < 300 then (reg, Inr True)
      else (case outcome of
              NetworkError \<Rightarrow> (reg, Inr False)
            | Timeout \<Rightarrow> (reg, Inr False)
            | Response status body \<Rightarrow>
                if status \<noteq> 200 then (reg, Inr False)
                else (case body of
                        None \<Rightarrow> (reg, Inr False)
                      | Some (JDict d) \<Rightarrow>
                          (case parse_all d [] of
                             (ns, Some e) \<Rightarrow> (reg\<lparr>nodes := ns\<rparr>, Inl e)
                           | (ns, None) \<Rightarrow>
                               (reg\<lparr>nodes := ns, last_fetch := now, fetched := True\<rparr>, Inr True))
                      | Some other \<Rightarrow> (reg\<lparr>nodes := []\<rparr>, Inl AttributeError))))"

definition is_loaded :: "node_registry \<Rightarrow> bool" where
  "is_loaded reg = (fetched reg \<and> nodes reg \<noteq> [])"

text \<open>
  A lookup in a dict with string keys by any value: a list or a dict is unhashable
  (\<^verbatim>\<open>TypeError\<close>), and no other non-string equals a key.
\<close>

fun lookup :: "json \<Rightarrow> (string \<times> 'a) list \<Rightarrow> error + 'a option" where
  "lookup (JStr s) d = Inr (map_of d s)"
| "lookup (JList xs) d = Inl TypeError"
| "lookup (JDict kvs) d = Inl TypeError"
| "lookup v d = Inr None"

definition node_exists :: "node_registry \<Rightarrow> json \<Rightarrow> error + bool" where
  "node_exists reg ct = (case lookup ct (nodes reg) of Inl e \<Rightarrow> Inl e | Inr r \<Rightarrow> Inr (r \<noteq> None))"

definition get_node :: "node_registry \<Rightarrow> json \<Rightarrow> error + node_definition option" where
  "get_node reg ct = lookup ct (nodes reg)"

text \<open>An \<^verbatim>\<open>int\<close> or a \<^verbatim>\<open>bool\<close> as the integer it compares and indexes as.\<close>

fun as_int :: "json \<Rightarrow> int option" where
  "as_int (JInt i) = Some i"
| "as_int (JBool b) = Some (if b then 1 else 0)"
| "as_int v = None"

text \<open>
  \<^verbatim>\<open>get_output_type\<close>: \<^verbatim>\<open>0 <= slot_index\<close> is evaluated once the class type is found,
  and raises \<^verbatim>\<open>TypeError\<close> for a slot that is not a number.
\<close>

definition get_output_type :: "node_registry \<Rightarrow> json \<Rightarrow> json \<Rightarrow> error + json option" where
  "get_output_type reg ct slot_index =
     (case lookup ct (nodes reg) of
        Inl e \<Rightarrow> Inl e
      | Inr None \<Rightarrow> Inr None
      | Inr (Some node) \<Rightarrow>
          (case as_int slot_index of
             None \<Rightarrow> Inl TypeError
           | Some i \<Rightarrow>
               if 0 \<le> i \<and> i < int (length (output_types node))
               then Inr (Some (output_types node ! nat i))
               else Inr None))"

definition get_input_type :: "node_registry \<Rightarrow> json \<Rightarrow> string \<Rightarrow> error + (string \<times> bool) option" where
  "get_input_type reg ct input_name =
     (case lookup ct (nodes reg) of
        Inl e \<Rightarrow> Inl e
      | Inr None \<Rightarrow> Inr None
      | Inr (Some node) \<Rightarrow>
          Inr (case map_of (inputs_required node) input_name of
                 Some d \<Rightarrow> Some (type d, True)
               | None \<Rightarrow>
                   (case map_of (inputs_optional node) input_name of
                      Some d \<Rightarrow> Some (type d, False)
                    | None \<Rightarrow> None)))"

text \<open>
  \<^verbatim>\<open>suggest_similar\<close> calls \<^verbatim>\<open>difflib.get_close_matches\<close> with \<open>n = 3\<close> and cutoff 0.6;
  the library function is the parameter \<open>gcm\<close>.
\<close>

definition suggest_similar ::
  "(string \<Rightarrow> string list \<Rightarrow> string list) \<Rightarrow> node_registry \<Rightarrow> string \<Rightarrow> string list" where
  "suggest_similar gcm reg ct = gcm ct (map fst (nodes reg))"

section \<open>WorkflowValidator\<close>

record validation_issue =
  check :: string
  node_id :: string
  message :: string
  severity :: string
  suggestion :: string

record validation_result =
  valid :: bool
  issues :: "validation_issue list"
  node_count :: nat
  validated_against_registry :: bool

definition errors :: "validation_issue list \<Rightarrow> validation_issue list" where
  "errors iss = filter (\<lambda>i. severity i = ''error'') iss"

definition warnings :: "validation_issue list \<Rightarrow> validation_issue list" where
  "warnings iss = filter (\<lambda>i. severity i = ''warning'') iss"

text \<open>An issue with the dataclass defaults, and one of severity warning.\<close>

definition error_issue :: "string \<Rightarrow> string \<Rightarrow> string \<Rightarrow> validation_issue" where
  "error_issue c nid msg =
     \<lparr>check = c, node_id = nid, message = msg, severity = ''error'', suggestion = []\<rparr>"

definition warning_issue :: "string \<Rightarrow> string \<Rightarrow> string \<Rightarrow> validation_issue" where
  "warning_issue c nid msg =
     \<lparr>check = c, node_id = nid, message = msg, severity = ''warning'', suggestion = []\<rparr>"

definition quoted :: "string \<Rightarrow> string" where
  "quoted s = [CHR 0x27] @ s @ [CHR 0x27]"

definition structure_issues :: "string \<times> json \<Rightarrow> validation_issue list" where
  "structure_issues kn =
     (case snd kn of
        JDict flds \<Rightarrow>
          (if has_key ''class_type'' flds then []
           else [error_issue ''missing_class_type'' (fst kn)
                   (''Node '' @ repr_str (fst kn) @ '' missing '' @ quoted ''class_type'')]) @
          (if has_key ''inputs'' flds then []
           else [error_issue ''missing_inputs'' (fst kn)
                   (''Node '' @ repr_str (fst kn) @ '' missing '' @ quoted ''inputs'')])
      | other \<Rightarrow>
          [error_issue ''invalid_structure'' (fst kn)
             (''Node '' @ repr_str (fst kn) @ '' is not a dict'')])"

definition check_structure :: "(string \<times> json) list \<Rightarrow> validation_issue list" where
  "check_structure wfl = concat (map structure_issues wfl)"

text \<open>
  Check 1. A class type that is no string, is hashable and is not found reaches
  \<^verbatim>\<open>get_close_matches\<close>, which iterates over it: \<^verbatim>\<open>TypeError\<close>.
\<close>

definition check_node_exists ::
  "(string \<Rightarrow> string list \<Rightarrow> string list) \<Rightarrow> node_registry \<Rightarrow> string \<Rightarrow> json \<Rightarrow>
   error + validation_issue list" where
  "check_node_exists gcm reg nid ct =
     (if \<not> truthy ct then Inr []
      else (case node_exists reg ct of
              Inl e \<Rightarrow> Inl e
            | Inr True \<Rightarrow> Inr []
            | Inr False \<Rightarrow>
                (case ct of
                   JStr s \<Rightarrow>
                     Inr [\<lparr>check = ''node_not_found'', node_id = nid,
                           message = ''Node '' @ repr_str nid @ '' uses unknown type '' @ repr_str s,
                           severity = ''error'',
                           suggestion =
                             (case suggest_similar gcm reg s of
                                [] \<Rightarrow> []
                              | x # xs \<Rightarrow> ''Did you mean '' @ repr_str x @ ''?'')\<rparr>]
                 | other \<Rightarrow> Inl TypeError)))"

text \<open>Check 2.\<close>

definition check_required_inputs ::
  "node_registry \<Rightarrow> string \<Rightarrow> json \<Rightarrow> json \<Rightarrow> error + validation_issue list" where
  "check_required_inputs reg nid ct inputs =
     (case get_node reg ct of
        Inl e \<Rightarrow> Inl e
      | Inr None \<Rightarrow> Inr []
      | Inr (Some node_def) \<Rightarrow>
          collect (\<lambda>kd. case py_contains (fst kd) inputs of
                          Inl e \<Rightarrow> Inl e
                        | Inr True \<Rightarrow> Inr []
                        | Inr False \<Rightarrow>
                            Inr [error_issue ''required_input_missing'' nid
                                   (''Node '' @ repr_str nid @ '' ('' @ py_str ct @
                                    '') missing required input '' @ repr_str (fst kd))])
            (inputs_required node_def))"

text \<open>Check 3, on one input and on all of them; \<^verbatim>\<open>inputs.items()\<close> needs a dict.\<close>

fun link_issue :: "(string \<times> json) list \<Rightarrow> string \<Rightarrow> string \<times> json \<Rightarrow> validation_issue list" where
  "link_issue wfl nid (input_name, JList [a, b]) =
     (if has_key (py_str a) wfl then []
      else [error_issue ''link_invalid'' nid
              (''Node '' @ repr_str nid @ '' input '' @ repr_str input_name @
               '' links to non-existent node '' @ repr_str (py_str a))])"
| "link_issue wfl nid (input_name, v) = []"

definition check_link_validity ::
  "string \<Rightarrow> json \<Rightarrow> (string \<times> json) list \<Rightarrow> error + validation_issue list" where
  "check_link_validity nid inputs wfl =
     (case inputs of
        JDict d \<Rightarrow> Inr (concat (map (link_issue wfl nid) d))
      | other \<Rightarrow> Inl AttributeError)"

text \<open>
  What checks 4 and 5 do with the source of a link: \<^verbatim>\<open>workflow.get(source_id)\<close>,
  \<^verbatim>\<open>continue\<close> when it is falsy (\<open>Inr None\<close>), and its
  \<^verbatim>\<open>.get("class_type", "")\<close>, which needs a dict.
\<close>

definition source_class :: "(string \<times> json) list \<Rightarrow> string \<Rightarrow> error + json option" where
  "source_class wfl source_id =
     (case map_of wfl source_id of
        None \<Rightarrow> Inr None
      | Some source_node \<Rightarrow>
          if \<not> truthy source_node then Inr None
          else (case source_node of
                  JDict flds \<Rightarrow> Inr (Some (get_or flds ''class_type'' (JStr [])))
                | other \<Rightarrow> Inl AttributeError))"

text \<open>Check 4 on one input.\<close>

fun slot_issue ::
  "node_registry \<Rightarrow> (string \<times> json) list \<Rightarrow> string \<Rightarrow> string \<times> json \<Rightarrow>
   error + validation_issue list" where
  "slot_issue reg wfl nid (input_name, JList [a, slot_index]) =
     (case source_class wfl (py_str a) of
        Inl e \<Rightarrow> Inl e
      | Inr None \<Rightarrow> Inr []
      | Inr (Some source_type) \<Rightarrow>
          (case get_node reg source_type of
             Inl e \<Rightarrow> Inl e
           | Inr None \<Rightarrow> Inr []
           | Inr (Some source_def) \<Rightarrow>
               (case as_int slot_index of
                  None \<Rightarrow> Inr []
                | Some i \<Rightarrow>
                    if i \<ge> int (length (output_types source_def))
                    then Inr [error_issue ''output_slot_out_of_range'' nid
                                (''Node '' @ repr_str nid @ '' input '' @ repr_str input_name @
                                 '' uses slot '' @ py_str slot_index @ '' from node '' @
                                 repr_str (py_str a) @ '' ('' @ py_str source_type @
                                 ''), but it only has '' @
                                 str_int (int (length (output_types source_def))) @
                                 '' output(s)'')]
                    else Inr [])))"
| "slot_issue reg wfl nid (input_name, v) = Inr []"

definition check_output_slot_range ::
  "node_registry \<Rightarrow> string \<Rightarrow> json \<Rightarrow> (string \<times> json) list \<Rightarrow> error + validation_issue list" where
  "check_output_slot_range reg nid inputs wfl =
     (case inputs of
        JDict d \<Rightarrow> collect (slot_issue reg wfl nid) d
      | other \<Rightarrow> Inl AttributeError)"

text \<open>Check 5 on one input of a node whose class type \<open>ct\<close> is in the registry.\<close>

fun type_issue ::
  "node_registry \<Rightarrow> (string \<times> json) list \<Rightarrow> string \<Rightarrow> json \<Rightarrow> string \<times> json \<Rightarrow>
   error + validation_issue list" where
  "type_issue reg wfl nid ct (input_name, JList [a, slot_index]) =
     (case source_class wfl (py_str a) of
        Inl e \<Rightarrow> Inl e
      | Inr None \<Rightarrow> Inr []
      | Inr (Some source_type) \<Rightarrow>
          (case get_output_type reg source_type slot_index of
             Inl e \<Rightarrow> Inl e
           | Inr None \<Rightarrow> Inr []
           | Inr (Some output_type) \<Rightarrow>
               if \<not> truthy output_type then Inr []
               else (case get_input_type reg ct input_name of
                       Inl e \<Rightarrow> Inl e
                     | Inr None \<Rightarrow> Inr []
                     | Inr (Some type_info) \<Rightarrow>
                         if fst type_info = ''*'' \<or> output_type = JStr ''*'' then Inr []
                         else if output_type \<noteq> JStr (fst type_info)
                         then Inr [warning_issue ''type_mismatch'' nid
                                     (''Node '' @ repr_str nid @ '' input '' @ repr_str input_name @
                                      '' expects '' @ repr_str (fst type_info) @
                                      '' but receives '' @ py_repr output_type @
                                      '' from node '' @ repr_str (py_str a) @
                                      '' slot '' @ py_str slot_index)]
                         else Inr [])))"
| "type_issue reg wfl nid ct (input_name, v) = Inr []"

definition check_type_compatibility ::
  "node_registry \<Rightarrow> string \<Rightarrow> json \<Rightarrow> json \<Rightarrow> (string \<times> json) list \<Rightarrow>
   error + validation_issue list" where
  "check_type_compatibility reg nid ct inputs wfl =
     (case get_node reg ct of
        Inl e \<Rightarrow> Inl e
      | Inr None \<Rightarrow> Inr []
      | Inr (Some node_def) \<Rightarrow>
          (case inputs of
             JDict d \<Rightarrow> collect (type_issue reg wfl nid ct) d
           | other \<Rightarrow> Inl AttributeError))"

text \<open>\<^verbatim>\<open>{**node_def.inputs_required, **node_def.inputs_optional}\<close>.\<close>

definition all_inputs :: "node_definition \<Rightarrow> (string \<times> input_definition) list" where
  "all_inputs node_def =
     fold (\<lambda>kd acc. AList.update (fst kd) (snd kd) acc) (inputs_optional node_def)
       (inputs_required node_def)"

fun is_list :: "json \<Rightarrow> bool" where
  "is_list (JList xs) = True"
| "is_list v = False"

text \<open>
  \<^verbatim>\<open>value < bound\<close> and \<^verbatim>\<open>value > bound\<close> for a number \<open>v\<close>: a bound that is no number
  raises \<^verbatim>\<open>TypeError\<close>.
\<close>

definition bound_issue ::
  "bool \<Rightarrow> int \<Rightarrow> json \<Rightarrow> validation_issue \<Rightarrow> error + validation_issue list" where
  "bound_issue below v bound i =
     (if bound = JNull then Inr []
      else (case as_int bound of
              None \<Rightarrow> Inl TypeError
            | Some b \<Rightarrow> if (if below then v < b else v > b) then Inr [i] else Inr []))"

text \<open>Check 6 on one input.\<close>

definition range_issue ::
  "node_definition \<Rightarrow> string \<Rightarrow> json \<Rightarrow> string \<times> json \<Rightarrow> error + validation_issue list" where
  "range_issue node_def nid ct kv =
     (if is_list (snd kv) then Inr []
      else (case map_of (all_inputs node_def) (fst kv) of
              None \<Rightarrow> Inr []
            | Some input_def \<Rightarrow>
                (case as_int (snd kv) of
                   None \<Rightarrow> Inr []
                 | Some v \<Rightarrow>
                     if type input_def = ''INT'' \<or> type input_def = ''FLOAT''
                     then (case bound_issue True v (min_val input_def)
                                  (warning_issue ''value_out_of_range'' nid
                                     (''Node '' @ repr_str nid @ '' ('' @ py_str ct @ '') '' @
                                      fst kv @ ''='' @ py_str (snd kv) @ '', minimum is '' @
                                      py_str (min_val input_def))) of
                             Inl e \<Rightarrow> Inl e
                           | Inr lo \<Rightarrow>
                               (case bound_issue False v (max_val input_def)
                                       (warning_issue ''value_out_of_range'' nid
                                          (''Node '' @ repr_str nid @ '' ('' @ py_str ct @ '') '' @
                                           fst kv @ ''='' @ py_str (snd kv) @ '', maximum is '' @
                                           py_str (max_val input_def))) of
                                  Inl e \<Rightarrow> Inl e
                                | Inr hi \<Rightarrow> Inr (lo @ hi)))
                     else Inr [])))"

definition check_value_ranges ::
  "node_registry \<Rightarrow> string \<Rightarrow> json \<Rightarrow> json \<Rightarrow> error + validation_issue list" where
  "check_value_ranges reg nid ct inputs =
     (case get_node reg ct of
        Inl e \<Rightarrow> Inl e
      | Inr None \<Rightarrow> Inr []
      | Inr (Some node_def) \<Rightarrow>
          (case inputs of
             JDict d \<Rightarrow> collect (range_issue node_def nid ct) d
           | other \<Rightarrow> Inl AttributeError))"

text \<open>Check 7 on one input: only a string value is compared with the options.\<close>

definition combo_issue ::
  "node_definition \<Rightarrow> string \<Rightarrow> json \<Rightarrow> string \<times> json \<Rightarrow> validation_issue list" where
  "combo_issue node_def nid ct kv =
     (if is_list (snd kv) then []
      else (case map_of (all_inputs node_def) (fst kv) of
              None \<Rightarrow> []
            | Some input_def \<Rightarrow>
                (case (options input_def, snd kv) of
                   (Some opts, JStr s) \<Rightarrow>
                     if type input_def = ''COMBO'' \<and> opts \<noteq> [] \<and> JStr s \<notin> set opts
                     then [warning_issue ''invalid_combo_value'' nid
                             (''Node '' @ repr_str nid @ '' ('' @ py_str ct @ '') '' @ fst kv @
                              ''='' @ repr_str s @ '' not in allowed values'')]
                     else []
                 | other \<Rightarrow> [])))"

definition check_combo_values ::
  "node_registry \<Rightarrow> string \<Rightarrow> json \<Rightarrow> json \<Rightarrow> error + validation_issue list" where
  "check_combo_values reg nid ct inputs =
     (case get_node reg ct of
        Inl e \<Rightarrow> Inl e
      | Inr None \<Rightarrow> Inr []
      | Inr (Some node_def) \<Rightarrow>
          (case inputs of
             JDict d \<Rightarrow> Inr (concat (map (combo_issue node_def nid ct) d))
           | other \<Rightarrow> Inl AttributeError))"

text \<open>Two steps in sequence: the second runs only if the first returned.\<close>

definition and_then ::
  "error + validation_issue list \<Rightarrow> error + validation_issue list \<Rightarrow> error + validation_issue list" where
  "and_then r1 r2 =
     (case r1 of
        Inl e \<Rightarrow> Inl e
      | Inr xs \<Rightarrow> (case r2 of Inl e \<Rightarrow> Inl e | Inr ys \<Rightarrow> Inr (xs @ ys)))"

text \<open>One round of the registry loop of \<^verbatim>\<open>validate\<close>: the seven checks in their order.\<close>

definition node_issues ::
  "(string \<Rightarrow> string list \<Rightarrow> string list) \<Rightarrow> node_registry \<Rightarrow> (string \<times> json) list \<Rightarrow>
   string \<times> json \<Rightarrow> error + validation_issue list" where
  "node_issues gcm reg wfl kn =
     (case snd kn of
        JDict flds \<Rightarrow>
          (let nid = fst kn;
               ct = get_or flds ''class_type'' (JStr []);
               inputs = get_or flds ''inputs'' (JDict [])
           in and_then (check_node_exists gcm reg nid ct)
             (and_then (check_required_inputs reg nid ct inputs)
             (and_then (check_link_validity nid inputs wfl)
             (and_then (check_output_slot_range reg nid inputs wfl)
             (and_then (check_type_compatibility reg nid ct inputs wfl)
             (and_then (check_value_ranges reg nid ct inputs)
                       (check_combo_values reg nid ct inputs)))))))
      | other \<Rightarrow> Inr [])"

definition validate ::
  "(string \<Rightarrow> string list \<Rightarrow> string list) \<Rightarrow> node_registry \<Rightarrow> (string \<times> json) list \<Rightarrow>
   error + validation_result" where
  "validate gcm reg wfl =
     (if wfl = []
      then Inr \<lparr>valid = False,
                issues = [error_issue ''empty_workflow'' [] ''Workflow is empty''],
                node_count = 0,
                validated_against_registry = is_loaded reg\<rparr>
      else (case (if is_loaded reg then collect (node_issues gcm reg wfl) wfl else Inr []) of
              Inl e \<Rightarrow> Inl e
            | Inr found \<Rightarrow>
                Inr \<lparr>valid = (errors (check_structure wfl @ found) = []),
                     issues = check_structure wfl @ found,
                     node_count = length wfl,
                     validated_against_registry = is_loaded reg\<rparr>))"

section \<open>Shapes of graphs used in the statements\<close>

text \<open>\<^verbatim>\<open>node.get("inputs", {})\<close> of a node, read as the input map of the data model.\<close>

fun inputs_of :: "json \<Rightarrow> (string \<times> json) list" where
  "inputs_of (JDict flds) = (case map_of flds ''inputs'' of Some (JDict i) \<Rightarrow> i | other \<Rightarrow> [])"
| "inputs_of v = []"

text \<open>
  A node instance of the data model: a record whose \<^verbatim>\<open>inputs\<close> entry, when it has one,
  is a mapping.
\<close>

fun node_ok :: "json \<Rightarrow> bool" where
  "node_ok (JDict flds) = (case map_of flds ''inputs'' of None \<Rightarrow> True | Some v \<Rightarrow> is_dict v)"
| "node_ok v = False"

text \<open>All issues of a list carry one check name, one node id and one severity.\<close>

definition tagged :: "string \<Rightarrow> string \<Rightarrow> string \<Rightarrow> validation_issue list \<Rightarrow> bool" where
  "tagged c nid sev xs = list_all (\<lambda>i. check i = c \<and> node_id i = nid \<and> severity i = sev) xs"

text \<open>
  The issue of the validator that reports the same defect as a message of the
  manipulator's own check: \<^verbatim>\<open>_check_structure\<close> for a missing field, check 3 for a
  link to a node that is not in the graph.
\<close>

fun issue_of_defect :: "defect \<Rightarrow> validation_issue" where
  "issue_of_defect (MissingClassType nid) =
     error_issue ''missing_class_type'' nid
       (''Node '' @ repr_str nid @ '' missing '' @ quoted ''class_type'')"
| "issue_of_defect (MissingInputs nid) =
     error_issue ''missing_inputs'' nid
       (''Node '' @ repr_str nid @ '' missing '' @ quoted ''inputs'')"
| "issue_of_defect (DanglingLink nid input_name source_id) =
     error_issue ''link_invalid'' nid
       (''Node '' @ repr_str nid @ '' input '' @ repr_str input_name @
        '' links to non-existent node '' @ repr_str source_id)"

fun is_dangling :: "defect \<Rightarrow> bool" where
  "is_dangling (DanglingLink nid input_name source_id) = True"
| "is_dangling d = False"

text \<open>What a check that returned has appended to the report; nothing when it raised.\<close>

definition emitted :: "error + 'a list \<Rightarrow> 'a list" where
  "emitted r = (case r of Inl e \<Rightarrow> [] | Inr xs \<Rightarrow> xs)"

text \<open>Names of the checks of the registry loop.\<close>

definition registry_check :: "string \<Rightarrow> bool" where
  "registry_check c = (c \<in> set [''node_not_found'', ''required_input_missing'', ''link_invalid'',
     ''output_slot_out_of_range'', ''type_mismatch'', ''value_out_of_range'', ''invalid_combo_value''])"

section \<open>Loops and sequences of checks\<close>

lemma collect_Inr_member:
  "collect f xs = Inr zs \<Longrightarrow> x \<in> set xs \<Longrightarrow> \<exists>ys. f x = Inr ys \<and> set ys \<subseteq> set zs"
proof (induction xs arbitrary: zs)
  case Nil
  then show ?case by simp
next
  case (Cons y xs)
  from Cons.prems(1) obtain ys ws where
    parts: "f y = Inr ys" "collect f xs = Inr ws" "zs = ys @ ws"
    by (auto split: sum.splits)
  show ?case
  proof (cases "x = y")
    case True
    with parts show ?thesis by auto
  next
    case False
    with Cons.prems(2) have "x \<in> set xs" by simp
    from Cons.IH [OF parts(2) this] parts(3) show ?thesis by auto
  qed
qed

lemma collect_Inr_origin:
  "collect f xs = Inr zs \<Longrightarrow> z \<in> set zs \<Longrightarrow> \<exists>x \<in> set xs. \<exists>ys. f x = Inr ys \<and> z \<in> set ys"
proof (induction xs arbitrary: zs)
  case Nil
  then show ?case by simp
next
  case (Cons y xs)
  from Cons.prems(1) obtain ys ws where
    parts: "f y = Inr ys" "collect f xs = Inr ws" "zs = ys @ ws"
    by (auto split: sum.splits)
  from Cons.prems(2) parts(3) consider "z \<in> set ys" | "z \<in> set ws" by auto
  then show ?case
  proof cases
    case 1
    with parts(1) show ?thesis by auto
  next
    case 2
    from Cons.IH [OF parts(2) this] show ?thesis by auto
  qed
qed

lemma and_then_Inr:
  "and_then r1 r2 = Inr zs \<Longrightarrow> \<exists>xs ys. r1 = Inr xs \<and> r2 = Inr ys \<and> zs = xs @ ys"
  by (auto simp: and_then_def split: sum.splits)

lemma node_issues_parts:
  assumes "node_issues gcm reg g (nid, JDict flds) = Inr xs"
  shows "\<exists>x1 x2 x3 x4 x5 x6 x7.
     check_node_exists gcm reg nid (get_or flds ''class_type'' (JStr [])) = Inr x1 \<and>
     check_required_inputs reg nid (get_or flds ''class_type'' (JStr []))
        (get_or flds ''inputs'' (JDict [])) = Inr x2 \<and>
     check_link_validity nid (get_or flds ''inputs'' (JDict [])) g = Inr x3 \<and>
     check_output_slot_range reg nid (get_or flds ''inputs'' (JDict [])) g = Inr x4 \<and>
     check_type_compatibility reg nid (get_or flds ''class_type'' (JStr []))
        (get_or flds ''inputs'' (JDict [])) g = Inr x5 \<and>
     check_value_ranges reg nid (get_or flds ''class_type'' (JStr []))
        (get_or flds ''inputs'' (JDict [])) = Inr x6 \<and>
     check_combo_values reg nid (get_or flds ''class_type'' (JStr []))
        (get_or flds ''inputs'' (JDict [])) = Inr x7 \<and>
     xs = x1 @ x2 @ x3 @ x4 @ x5 @ x6 @ x7"
proof -
  let ?ct = "get_or flds ''class_type'' (JStr [])"
  let ?inp = "get_or flds ''inputs'' (JDict [])"
  from assms have chain:
    "and_then (check_node_exists gcm reg nid ?ct)
       (and_then (check_required_inputs reg nid ?ct ?inp)
       (and_then (check_link_validity nid ?inp g)
       (and_then (check_output_slot_range reg nid ?inp g)
       (and_then (check_type_compatibility reg nid ?ct ?inp g)
       (and_then (check_value_ranges reg nid ?ct ?inp)
                 (check_combo_values reg nid ?ct ?inp)))))) = Inr xs"
    by (simp add: node_issues_def Let_def)
  from and_then_Inr [OF chain] obtain x1 r1 where
    s1: "check_node_exists gcm reg nid ?ct = Inr x1" "xs = x1 @ r1" and
    c1: "and_then (check_required_inputs reg nid ?ct ?inp)
       (and_then (check_link_validity nid ?inp g)
       (and_then (check_output_slot_range reg nid ?inp g)
       (and_then (check_type_compatibility reg nid ?ct ?inp g)
       (and_then (check_value_ranges reg nid ?ct ?inp)
                 (check_combo_values reg nid ?ct ?inp))))) = Inr r1" by blast
  from and_then_Inr [OF c1] obtain x2 r2 where
    s2: "check_required_inputs reg nid ?ct ?inp = Inr x2" "r1 = x2 @ r2" and
    c2: "and_then (check_link_validity nid ?inp g)
       (and_then (check_output_slot_range reg nid ?inp g)
       (and_then (check_type_compatibility reg nid ?ct ?inp g)
       (and_then (check_value_ranges reg nid ?ct ?inp)
                 (check_combo_values reg nid ?ct ?inp)))) = Inr r2" by blast
  from and_then_Inr [OF c2] obtain x3 r3 where
    s3: "check_link_validity nid ?inp g = Inr x3" "r2 = x3 @ r3" and
    c3: "and_then (check_output_slot_range reg nid ?inp g)
       (and_then (check_type_compatibility reg nid ?ct ?inp g)
       (and_then (check_value_ranges reg nid ?ct ?inp)
                 (check_combo_values reg nid ?ct ?inp))) = Inr r3" by blast
  from and_then_Inr [OF c3] obtain x4 r4 where
    s4: "check_output_slot_range reg nid ?inp g = Inr x4" "r3 = x4 @ r4" and
    c4: "and_then (check_type_compatibility reg nid ?ct ?inp g)
       (and_then (check_value_ranges reg nid ?ct ?inp)
                 (check_combo_values reg nid ?ct ?inp)) = Inr r4" by blast
  from and_then_Inr [OF c4] obtain x5 r5 where
    s5: "check_type_compatibility reg nid ?ct ?inp g = Inr x5" "r4 = x5 @ r5" and
    c5: "and_then (check_value_ranges reg nid ?ct ?inp)
                 (check_combo_values reg nid ?ct ?inp) = Inr r5" by blast
  from and_then_Inr [OF c5] obtain x6 x7 where
    s6: "check_value_ranges reg nid ?ct ?inp = Inr x6" "r5 = x6 @ x7" and
    s7: "check_combo_values reg nid ?ct ?inp = Inr x7" by blast
  from s1 s2 s3 s4 s5 s6 s7 show ?thesis by simp
qed

section \<open>What each check tags its issues with\<close>

lemma tagged_Nil [simp]: "tagged c nid sev []"
  by (simp add: tagged_def)

lemma tagged_append [simp]: "tagged c nid sev (xs @ ys) \<longleftrightarrow> tagged c nid sev xs \<and> tagged c nid sev ys"
  by (simp add: tagged_def)

lemma tagged_error_issue [simp]: "tagged c nid ''error'' [error_issue c nid msg]"
  by (simp add: tagged_def error_issue_def)

lemma tagged_warning_issue [simp]: "tagged c nid ''warning'' [warning_issue c nid msg]"
  by (simp add: tagged_def warning_issue_def)

lemma tagged_concat: "(\<And>x. x \<in> set xs \<Longrightarrow> tagged c nid sev (f x)) \<Longrightarrow> tagged c nid sev (concat (map f xs))"
  by (induction xs) auto

lemma tagged_collect:
  assumes "collect f xs = Inr zs"
    and "\<And>x ys. x \<in> set xs \<Longrightarrow> f x = Inr ys \<Longrightarrow> tagged c nid sev ys"
  shows "tagged c nid sev zs"
  unfolding tagged_def list_all_iff
proof
  fix z assume "z \<in> set zs"
  from collect_Inr_origin [OF assms(1) this] obtain x ys where
    "x \<in> set xs" "f x = Inr ys" "z \<in> set ys" by blast
  with assms(2) [of x ys] show "check z = c \<and> node_id z = nid \<and> severity z = sev"
    by (auto simp: tagged_def list_all_iff)
qed

lemma tagged_node_exists:
  "check_node_exists gcm reg nid ct = Inr xs \<Longrightarrow> tagged ''node_not_found'' nid ''error'' xs"
  by (auto simp: check_node_exists_def tagged_def split: if_splits sum.splits bool.splits json.splits)

lemma tagged_required_inputs:
  assumes "check_required_inputs reg nid ct inputs = Inr xs"
  shows "tagged ''required_input_missing'' nid ''error'' xs"
proof (cases "get_node reg ct")
  case (Inl e)
  with assms show ?thesis by (simp add: check_required_inputs_def)
next
  case (Inr r)
  show ?thesis
  proof (cases r)
    case None
    with Inr assms show ?thesis by (simp add: check_required_inputs_def)
  next
    case (Some nd)
    with Inr assms have "collect (\<lambda>kd. case py_contains (fst kd) inputs of
                          Inl e \<Rightarrow> Inl e
                        | Inr True \<Rightarrow> Inr []
                        | Inr False \<Rightarrow>
                            Inr [error_issue ''required_input_missing'' nid
                                   (''Node '' @ repr_str nid @ '' ('' @ py_str ct @
                                    '') missing required input '' @ repr_str (fst kd))])
            (inputs_required nd) = Inr xs"
      by (simp add: check_required_inputs_def)
    then show ?thesis
      by (rule tagged_collect) (auto split: sum.splits bool.splits)
  qed
qed

lemma tagged_link_issue: "tagged ''link_invalid'' nid ''error'' (link_issue g nid kv)"
  by (cases "(g, nid, kv)" rule: link_issue.cases) auto

lemma tagged_link_validity:
  "check_link_validity nid inputs g = Inr xs \<Longrightarrow> tagged ''link_invalid'' nid ''error'' xs"
  by (auto simp: check_link_validity_def tagged_link_issue intro!: tagged_concat split: json.splits)

lemma tagged_slot_issue:
  "slot_issue reg g nid kv = Inr xs \<Longrightarrow> tagged ''output_slot_out_of_range'' nid ''error'' xs"
  by (cases "(reg, g, nid, kv)" rule: slot_issue.cases)
     (auto split: sum.splits option.splits if_splits)

lemma tagged_slot_range:
  "check_output_slot_range reg nid inputs g = Inr xs \<Longrightarrow>
   tagged ''output_slot_out_of_range'' nid ''error'' xs"
  by (auto simp: check_output_slot_range_def split: json.splits
      elim!: tagged_collect intro: tagged_slot_issue)

lemma tagged_type_issue:
  "type_issue reg g nid ct kv = Inr xs \<Longrightarrow> tagged ''type_mismatch'' nid ''warning'' xs"
  by (cases "(reg, g, nid, ct, kv)" rule: type_issue.cases)
     (auto split: sum.splits option.splits if_splits)

lemma tagged_type_compatibility:
  "check_type_compatibility reg nid ct inputs g = Inr xs \<Longrightarrow>
   tagged ''type_mismatch'' nid ''warning'' xs"
  by (auto simp: check_type_compatibility_def split: json.splits sum.splits option.splits
      elim!: tagged_collect intro: tagged_type_issue)

lemma tagged_bound_issue:
  "bound_issue below v bound (warning_issue c nid msg) = Inr xs \<Longrightarrow> tagged c nid ''warning'' xs"
  by (auto simp: bound_issue_def split: if_splits option.splits)

lemma tagged_range_issue:
  "range_issue nd nid ct kv = Inr xs \<Longrightarrow> tagged ''value_out_of_range'' nid ''warning'' xs"
  by (auto simp: range_issue_def split: if_splits option.splits sum.splits
      dest!: tagged_bound_issue)

lemma tagged_value_ranges:
  "check_value_ranges reg nid ct inputs = Inr xs \<Longrightarrow> tagged ''value_out_of_range'' nid ''warning'' xs"
  by (auto simp: check_value_ranges_def split: json.splits sum.splits option.splits
      elim!: tagged_collect intro: tagged_range_issue)

lemma tagged_combo_issue: "tagged ''invalid_combo_value'' nid ''warning'' (combo_issue nd nid ct kv)"
  by (auto simp: combo_issue_def split: option.splits json.splits)

lemma tagged_combo_values:
  "check_combo_values reg nid ct inputs = Inr xs \<Longrightarrow> tagged ''invalid_combo_value'' nid ''warning'' xs"
  by (auto simp: check_combo_values_def tagged_combo_issue intro!: tagged_concat
      split: json.splits sum.splits option.splits)

section \<open>Removing a node\<close>

lemma fold_strip_subset: "set (fold (strip_step x) l acc) \<subseteq> set acc"
proof (induction l arbitrary: acc)
  case Nil
  then show ?case by simp
next
  case (Cons kv l)
  have "set (strip_step x kv acc) \<subseteq> set acc"
    by (auto simp: strip_step_def AList.delete_eq)
  with Cons.IH [of "strip_step x kv acc"] show ?case by auto
qed

lemma fold_strip_deletes:
  "(k, v) \<in> set l \<Longrightarrow> links_to x v \<Longrightarrow> k \<notin> fst ` set (fold (strip_step x) l acc)"
proof (induction l arbitrary: acc)
  case Nil
  then show ?case by simp
next
  case (Cons kv l)
  show ?case
  proof (cases "kv = (k, v)")
    case True
    have "set (fold (strip_step x) l (AList.delete k acc)) \<subseteq> set (AList.delete k acc)"
      by (rule fold_strip_subset)
    moreover have "k \<notin> fst ` set (AList.delete k acc)"
      by (rule AList.delete_notin_dom)
    moreover have "strip_step x kv acc = AList.delete k acc"
      using True Cons.prems by (simp add: strip_step_def)
    ultimately show ?thesis by auto
  next
    case False
    with Cons.prems have "(k, v) \<in> set l" by simp
    from Cons.IH [OF this Cons.prems(2)] show ?thesis by simp
  qed
qed

lemma strip_inputs_subset: "set (strip_inputs x d) \<subseteq> set d"
  by (simp add: strip_inputs_def fold_strip_subset)

lemma strip_inputs_no_link: "(k, v) \<in> set (strip_inputs x d) \<Longrightarrow> \<not> links_to x v"
proof
  assume in_res: "(k, v) \<in> set (strip_inputs x d)" and l: "links_to x v"
  from in_res strip_inputs_subset have "(k, v) \<in> set d" by blast
  from fold_strip_deletes [OF this l, of d] have "k \<notin> fst ` set (strip_inputs x d)"
    by (simp add: strip_inputs_def)
  with in_res show False by force
qed

lemma strip_node_ok:
  "node_ok n \<Longrightarrow> \<exists>n'. strip_node x n = Inr n' \<and> node_ok n' \<and> inputs_of n' = strip_inputs x (inputs_of n)"
  by (cases n) (auto simp: strip_node_def AList.update_conv' strip_inputs_def split: option.splits json.splits)

lemma strip_all_ok:
  "list_all (\<lambda>kv. node_ok (snd kv)) g \<Longrightarrow>
   \<exists>g'. strip_all x g = (g', None) \<and> map fst g' = map fst g \<and>
     list_all (\<lambda>kv. node_ok (snd kv)) g' \<and>
     list_all (\<lambda>kv. list_all (\<lambda>e. \<not> links_to x (snd e)) (inputs_of (snd kv))) g'"
proof (induction g)
  case Nil
  then show ?case by simp
next
  case (Cons kn g)
  obtain k n where kn: "kn = (k, n)" by (cases kn)
  from Cons.prems kn have "node_ok n" by simp
  from strip_node_ok [OF this, of x] obtain n' where
    n': "strip_node x n = Inr n'" "node_ok n'" "inputs_of n' = strip_inputs x (inputs_of n)" by blast
  from Cons.prems have "list_all (\<lambda>kv. node_ok (snd kv)) g" by simp
  from Cons.IH [OF this] obtain g' where
    g': "strip_all x g = (g', None)" "map fst g' = map fst g"
      "list_all (\<lambda>kv. node_ok (snd kv)) g'"
      "list_all (\<lambda>kv. list_all (\<lambda>e. \<not> links_to x (snd e)) (inputs_of (snd kv))) g'" by blast
  have "list_all (\<lambda>e. \<not> links_to x (snd e)) (inputs_of n')"
    using strip_inputs_no_link [of _ _ x "inputs_of n"] by (auto simp: n'(3) list_all_iff)
  with n' g' kn show ?case by simp
qed


lemma has_key_delete: "\<not> has_key x (AList.delete x g)"
  using AList.delete_notin_dom [of x g] by (simp add: has_key_def)

lemma node_ok_delete:
  "list_all (\<lambda>kv. node_ok (snd kv)) g \<Longrightarrow> list_all (\<lambda>kv. node_ok (snd kv)) (AList.delete x g)"
  by (simp add: AList.delete_eq list_all_iff)

text \<open>
  Claim C6. In a graph whose nodes are node instances, \<^verbatim>\<open>remove_node x\<close> for a present
  id \<open>x\<close> returns true, removes exactly the id \<open>x\<close>, and leaves no input of a remaining
  node that is a link with source \<open>x\<close>; a second removal of \<open>x\<close> returns false and
  changes nothing. For an absent id it returns false and the manipulator is unchanged.
\<close>

theorem remove_node_strips_links:
  assumes ok: "list_all (\<lambda>kv. node_ok (snd kv)) (workflow m)"
  shows "(has_key x (workflow m) \<longrightarrow>
            snd (remove_node x m) = Inr True \<and>
            map fst (workflow (fst (remove_node x m))) = removeAll x (map fst (workflow m)) \<and>
            list_all (\<lambda>kv. list_all (\<lambda>e. \<not> links_to x (snd e)) (inputs_of (snd kv)))
              (workflow (fst (remove_node x m))) \<and>
            remove_node x (fst (remove_node x m)) = (fst (remove_node x m), Inr False)) \<and>
         (\<not> has_key x (workflow m) \<longrightarrow> remove_node x m = (m, Inr False))"
proof (intro conjI impI)
  assume "\<not> has_key x (workflow m)"
  then show "remove_node x m = (m, Inr False)" by (simp add: remove_node_def)
next
  assume present: "has_key x (workflow m)"
  from strip_all_ok [OF node_ok_delete [OF ok], of x x] obtain g' where
    g': "strip_all x (AList.delete x (workflow m)) = (g', None)"
      "map fst g' = map fst (AList.delete x (workflow m))"
      "list_all (\<lambda>kv. list_all (\<lambda>e. \<not> links_to x (snd e)) (inputs_of (snd kv))) g'" by blast
  have res: "remove_node x m = (m\<lparr>workflow := g'\<rparr>, Inr True)"
    using present g'(1) by (simp add: remove_node_def)
  show "snd (remove_node x m) = Inr True" by (simp add: res)
  show "map fst (workflow (fst (remove_node x m))) = removeAll x (map fst (workflow m))"
    by (simp add: res g'(2) AList.delete_keys)
  show "list_all (\<lambda>kv. list_all (\<lambda>e. \<not> links_to x (snd e)) (inputs_of (snd kv)))
          (workflow (fst (remove_node x m)))"
    by (simp add: res g'(3))
  have "\<not> has_key x g'"
    by (simp add: has_key_def g'(2) AList.delete_keys)
  then have "remove_node x (m\<lparr>workflow := g'\<rparr>) = (m\<lparr>workflow := g'\<rparr>, Inr False)"
    by (simp add: remove_node_def)
  then show "remove_node x (fst (remove_node x m)) = (fst (remove_node x m), Inr False)"
    by (simp add: res)
qed

theorem remove_node_strips_links_witness:
  "list_all (\<lambda>kv. node_ok (snd kv))
     (workflow \<lparr>workflow =
        [(''1'', JDict [(''class_type'', JStr ''LoadImage''), (''inputs'', JDict [])]),
         (''2'', JDict [(''class_type'', JStr ''Blur''),
            (''inputs'', JDict [(''image'', JList [JInt 1, JInt 0]), (''radius'', JInt 3)])])],
        next_node_id = 3\<rparr>) \<and>
   has_key ''1''
     (workflow \<lparr>workflow =
        [(''1'', JDict [(''class_type'', JStr ''LoadImage''), (''inputs'', JDict [])]),
         (''2'', JDict [(''class_type'', JStr ''Blur''),
            (''inputs'', JDict [(''image'', JList [JInt 1, JInt 0]), (''radius'', JInt 3)])])],
        next_node_id = 3\<rparr>) \<and>
   remove_node ''1''
     \<lparr>workflow =
        [(''1'', JDict [(''class_type'', JStr ''LoadImage''), (''inputs'', JDict [])]),
         (''2'', JDict [(''class_type'', JStr ''Blur''),
            (''inputs'', JDict [(''image'', JList [JInt 1, JInt 0]), (''radius'', JInt 3)])])],
        next_node_id = 3\<rparr> =
     (\<lparr>workflow =
        [(''2'', JDict [(''class_type'', JStr ''Blur''), (''inputs'', JDict [(''radius'', JInt 3)])])],
        next_node_id = 3\<rparr>, Inr True) \<and>
   snd (remove_node ''1'' (fst (remove_node ''1''
     \<lparr>workflow =
        [(''1'', JDict [(''class_type'', JStr ''LoadImage''), (''inputs'', JDict [])]),
         (''2'', JDict [(''class_type'', JStr ''Blur''),
            (''inputs'', JDict [(''image'', JList [JInt 1, JInt 0]), (''radius'', JInt 3)])])],
        next_node_id = 3\<rparr>))) = Inr False"
  using remove_node_strips_links [of
     "\<lparr>workflow =
        [(''1'', JDict [(''class_type'', JStr ''LoadImage''), (''inputs'', JDict [])]),
         (''2'', JDict [(''class_type'', JStr ''Blur''),
            (''inputs'', JDict [(''image'', JList [JInt 1, JInt 0]), (''radius'', JInt 3)])])],
        next_node_id = 3\<rparr>" "''1''"]
  by code_simp

section \<open>Allocating node ids\<close>
















section \<open>Connecting nodes\<close>

lemma connect_nodes_on_record:
  assumes "map_of (workflow m) t = Some (JDict flds)"
    and "map_of flds ''inputs'' = Some (JDict inputs)"
  shows "connect_nodes s k t i m =
     (m\<lparr>workflow := AList.update t
         (JDict (AList.update ''inputs'' (JDict (AList.update i (JList [JStr s, JInt k]) inputs)) flds))
         (workflow m)\<rparr>, Inr True)"
  using assms by (simp add: connect_nodes_def set_node_input_def)

lemma connect_nodes_absent: "map_of (workflow m) t = None \<Longrightarrow> connect_nodes s k t i m = (m, Inr False)"
  by (simp add: connect_nodes_def)

text \<open>
  Claim C3. The target id 2 is in the graph, the node has no \<^verbatim>\<open>inputs\<close> entry, and
  \<^verbatim>\<open>connect_nodes\<close> raises \<^verbatim>\<open>KeyError\<close> instead of returning true.
\<close>

theorem connect_nodes_without_inputs:
  "connect_nodes ''1'' 0 ''2'' ''image''
     \<lparr>workflow = [(''1'', JDict [(''class_type'', JStr ''LoadImage''), (''inputs'', JDict [])]),
                  (''2'', JDict [(''class_type'', JStr ''Blur'')])],
      next_node_id = 3\<rparr> =
   (\<lparr>workflow = [(''1'', JDict [(''class_type'', JStr ''LoadImage''), (''inputs'', JDict [])]),
                  (''2'', JDict [(''class_type'', JStr ''Blur'')])],
      next_node_id = 3\<rparr>, Inl KeyError)"
  by code_simp

section \<open>Refreshing the registry\<close>

text \<open>
  When the request raises, the status is not 200 or the body does not decode,
  \<^verbatim>\<open>fetch\<close> returns false and the registry is as before.
\<close>

lemma fetch_failure_keeps_snapshot:
  assumes "\<not> (fetched reg \<and> now - last_fetch reg < 300)"
    and "outcome = NetworkError \<or> outcome = Timeout \<or>
         (\<exists>status body. outcome = Response status body \<and> (status \<noteq> 200 \<or> body = None))"
  shows "fetch now outcome reg = (reg, Inr False)"
  using assms by (auto simp: fetch_def)

text \<open>
  Claim C1. A body that decodes to a list, and a body whose second entry is no record:
  \<^verbatim>\<open>fetch\<close> raises \<^verbatim>\<open>AttributeError\<close>, with the cached definitions emptied in the first
  case and replaced by the first entry alone in the second.
\<close>

theorem fetch_misshapen_payload:
  "fetch 5000 (Response 200 (Some (JList [])))
     \<lparr>nodes = [(''LoadImage'',
         \<lparr>class_type = ''LoadImage'', category = JStr [], display_name = JStr ''LoadImage'',
          description = JStr [], inputs_required = [], inputs_optional = [],
          output_types = [JStr ''IMAGE''], output_names = []\<rparr>)],
      last_fetch = 1000, fetched = True\<rparr> =
   (\<lparr>nodes = [], last_fetch = 1000, fetched = True\<rparr>, Inl AttributeError) \<and>
   fetch 5000 (Response 200 (Some (JDict [(''Blur'', JDict []), (''Sharpen'', JInt 5)])))
     \<lparr>nodes = [(''LoadImage'',
         \<lparr>class_type = ''LoadImage'', category = JStr [], display_name = JStr ''LoadImage'',
          description = JStr [], inputs_required = [], inputs_optional = [],
          output_types = [JStr ''IMAGE''], output_names = []\<rparr>)],
      last_fetch = 1000, fetched = True\<rparr> =
   (\<lparr>nodes = [(''Blur'',
         \<lparr>class_type = ''Blur'', category = JStr [], display_name = JStr ''Blur'',
          description = JStr [], inputs_required = [], inputs_optional = [],
          output_types = [], output_names = []\<rparr>)],
      last_fetch = 1000, fetched = True\<rparr>, Inl AttributeError)"
  by code_simp

section \<open>Exceptions of the validator\<close>

text \<open>
  Claim C5. The registry is loaded, node 2 links to slot \<^verbatim>\<open>"0"\<close> (a string) of node 1,
  whose class type is in the registry: check 5 compares \<^verbatim>\<open>0 <= "0"\<close> and \<^verbatim>\<open>validate\<close>
  raises \<^verbatim>\<open>TypeError\<close>.
\<close>

theorem validate_raises_on_string_slot:
  "validate (\<lambda>word possibilities. [])
     \<lparr>nodes = [(''LoadImage'',
         \<lparr>class_type = ''LoadImage'', category = JStr [], display_name = JStr ''LoadImage'',
          description = JStr [], inputs_required = [], inputs_optional = [],
          output_types = [JStr ''IMAGE''], output_names = []\<rparr>)],
      last_fetch = 1000, fetched = True\<rparr>
     [(''1'', JDict [(''class_type'', JStr ''LoadImage''), (''inputs'', JDict [])]),
      (''2'', JDict [(''class_type'', JStr ''LoadImage''),
                     (''inputs'', JDict [(''image'', JList [JStr ''1'', JStr ''0''])])])] =
   Inl TypeError"
  by code_simp

section \<open>The manipulator's own check and the validator\<close>

lemma dangling_member:
  "d \<in> set (dangling g nid kv) \<Longrightarrow>
   \<exists>a b. snd kv = JList [a, b] \<and> d = DanglingLink nid (fst kv) (py_str a) \<and> \<not> has_key (py_str a) g"
  by (cases "(g, nid, kv)" rule: dangling.cases) (auto split: if_splits)

lemma node_defects_member:
  assumes "node_defects g (nid, JDict flds) = Inr ys" and "d \<in> set ys"
  shows "(d = MissingClassType nid \<and> \<not> has_key ''class_type'' flds) \<or>
         (d = MissingInputs nid \<and> \<not> has_key ''inputs'' flds) \<or>
         (\<exists>inputs inp a b. get_or flds ''inputs'' (JDict []) = JDict inputs \<and>
            (inp, JList [a, b]) \<in> set inputs \<and> d = DanglingLink nid inp (py_str a) \<and>
            \<not> has_key (py_str a) g)"
proof (cases "has_key ''inputs'' flds")
  case False
  with assms show ?thesis
    by (auto simp: node_defects_def Let_def split: if_splits)
next
  case True
  with assms obtain inputs where
    inputs: "get_or flds ''inputs'' (JDict []) = JDict inputs" and
    ys: "ys = (if has_key ''class_type'' flds then [] else [MissingClassType nid]) @
              concat (map (dangling g nid) inputs)"
    by (auto simp: node_defects_def Let_def split: json.splits)
  from assms(2) ys consider
      "d = MissingClassType nid" "\<not> has_key ''class_type'' flds"
    | kv where "kv \<in> set inputs" "d \<in> set (dangling g nid kv)"
    by (auto split: if_splits)
  then show ?thesis
  proof cases
    case 1
    then show ?thesis by simp
  next
    case 2
    from dangling_member [OF 2(2)] obtain a b where
      "snd kv = JList [a, b]" "d = DanglingLink nid (fst kv) (py_str a)" "\<not> has_key (py_str a) g"
      by blast
    moreover from this(1) 2(1) have "(fst kv, JList [a, b]) \<in> set inputs"
      by (metis prod.collapse)
    ultimately show ?thesis using inputs by blast
  qed
qed

lemma check_structure_member:
  "kn \<in> set g \<Longrightarrow> i \<in> set (structure_issues kn) \<Longrightarrow> i \<in> set (check_structure g)"
  by (auto simp: check_structure_def)

lemma validate_issues:
  assumes "validate gcm reg g = Inr r" and "g \<noteq> []"
  shows "\<exists>found. (if is_loaded reg then collect (node_issues gcm reg g) g else Inr []) = Inr found \<and>
           issues r = check_structure g @ found \<and> valid r = (errors (issues r) = [])"
  using assms by (auto simp: validate_def split: sum.splits if_splits)

lemma tagged_structure_issues:
  "i \<in> set (structure_issues kn) \<Longrightarrow>
   node_id i = fst kn \<and> severity i = ''error'' \<and>
   (check i = ''invalid_structure'' \<or> check i = ''missing_class_type'' \<or> check i = ''missing_inputs'')"
  by (auto simp: structure_issues_def error_issue_def split: json.splits if_splits)

lemma link_issue_member:
  "(inp, JList [a, b]) \<in> set inputs \<Longrightarrow> \<not> has_key (py_str a) g \<Longrightarrow>
   issue_of_defect (DanglingLink nid inp (py_str a)) \<in> set (concat (map (link_issue g nid) inputs))"
  by force

lemma severity_issue_of_defect: "severity (issue_of_defect d) = ''error''"
  by (cases d) (simp_all add: error_issue_def)

text \<open>
  Claim C4, as amended. In a graph whose nodes are records, when both checks return:
  every missing class type and every missing inputs map that the manipulator's check
  flags is an issue of the validator's report; every link to an absent node that it
  flags is an issue of the report when the registry is loaded, and with a registry that
  is not loaded the report has no link issue at all. A defect that the report has makes
  the report invalid. The messages of the manipulator's check are the renderings of the
  defects.
\<close>

theorem self_check_within_validate:
  assumes dicts: "list_all (\<lambda>kn. is_dict (snd kn)) (workflow m)"
    and sc: "manipulator_validate m = Inr (ok, msgs)"
    and v: "validate gcm reg (workflow m) = Inr r"
  shows "\<exists>ds. self_defects m = Inr ds \<and> msgs = map render_defect ds \<and> ok = (ds = []) \<and>
     (\<forall>d \<in> set ds. is_loaded reg \<or> \<not> is_dangling d \<longrightarrow> issue_of_defect d \<in> set (issues r)) \<and>
     (\<not> is_loaded reg \<longrightarrow> (\<forall>i \<in> set (issues r). check i \<noteq> ''link_invalid'')) \<and>
     ((\<exists>d \<in> set ds. is_loaded reg \<or> \<not> is_dangling d) \<longrightarrow> \<not> valid r)"
proof -
  let ?g = "workflow m"
  from sc obtain ds where ds: "self_defects m = Inr ds" "msgs = map render_defect ds" "ok = (ds = [])"
    by (auto simp: manipulator_validate_def split: sum.splits)
  have reported: "issue_of_defect d \<in> set (issues r)"
    if d: "d \<in> set ds" and which: "is_loaded reg \<or> \<not> is_dangling d" for d
  proof -
    from ds(1) have "collect (node_defects ?g) ?g = Inr ds" by (simp add: self_defects_def)
    from collect_Inr_origin [OF this d] obtain kn ys where
      kn: "kn \<in> set ?g" "node_defects ?g kn = Inr ys" "d \<in> set ys" by blast
    from dicts kn(1) obtain nid flds where node: "kn = (nid, JDict flds)"
      by (cases kn; cases "snd kn") (auto simp: list_all_iff)
    from kn(1) have nonempty: "?g \<noteq> []" by auto
    from validate_issues [OF v nonempty] obtain found where
      found: "(if is_loaded reg then collect (node_issues gcm reg ?g) ?g else Inr []) = Inr found"
        "issues r = check_structure ?g @ found" by blast
    from node_defects_member [OF kn(2) [unfolded node] kn(3)]
    consider
        (ct) "d = MissingClassType nid" "\<not> has_key ''class_type'' flds"
      | (inp) "d = MissingInputs nid" "\<not> has_key ''inputs'' flds"
      | (link) inputs inp a b where
          "get_or flds ''inputs'' (JDict []) = JDict inputs" "(inp, JList [a, b]) \<in> set inputs"
          "d = DanglingLink nid inp (py_str a)" "\<not> has_key (py_str a) ?g"
      by blast
    then show ?thesis
    proof cases
      case ct
      then have "issue_of_defect d \<in> set (structure_issues kn)"
        by (simp add: node structure_issues_def)
      from check_structure_member [OF kn(1) this] show ?thesis by (simp add: found(2))
    next
      case inp
      then have "issue_of_defect d \<in> set (structure_issues kn)"
        by (simp add: node structure_issues_def)
      from check_structure_member [OF kn(1) this] show ?thesis by (simp add: found(2))
    next
      case link
      with which have loaded: "is_loaded reg" by simp
      with found(1) have "collect (node_issues gcm reg ?g) ?g = Inr found" by simp
      from collect_Inr_member [OF this kn(1)] obtain xs where
        xs: "node_issues gcm reg ?g (nid, JDict flds) = Inr xs" "set xs \<subseteq> set found"
        by (auto simp: node)
      from node_issues_parts [OF xs(1)] obtain x1 x2 x3 x4 x5 x6 x7 where
        x3: "check_link_validity nid (get_or flds ''inputs'' (JDict [])) ?g = Inr x3" and
        "xs = x1 @ x2 @ x3 @ x4 @ x5 @ x6 @ x7" by blast
      then have x3_sub: "set x3 \<subseteq> set xs" by auto
      from x3 link(1) have "x3 = concat (map (link_issue ?g nid) inputs)"
        by (simp add: check_link_validity_def)
      with link_issue_member [OF link(2) link(4), of nid] link(3)
      have "issue_of_defect d \<in> set x3" by simp
      with x3_sub xs(2) show ?thesis by (auto simp: found(2))
    qed
  qed
  have unloaded: "check i \<noteq> ''link_invalid''" if "\<not> is_loaded reg" "i \<in> set (issues r)" for i
  proof (cases "?g = []")
    case True
    with v that(2) show ?thesis by (auto simp: validate_def error_issue_def)
  next
    case False
    from validate_issues [OF v False] that(1) have "issues r = check_structure ?g" by auto
    with that(2) obtain kn where "i \<in> set (structure_issues kn)"
      by (auto simp: check_structure_def)
    from tagged_structure_issues [OF this] show ?thesis by auto
  qed
  have invalid: "\<not> valid r" if "d \<in> set ds" "is_loaded reg \<or> \<not> is_dangling d" for d
  proof -
    from reported [OF that] have "issue_of_defect d \<in> set (errors (issues r))"
      by (simp add: errors_def severity_issue_of_defect)
    moreover from that(1) ds(1) have "?g \<noteq> []" by (auto simp: self_defects_def)
    ultimately show ?thesis using validate_issues [OF v] by auto
  qed
  from ds reported unloaded invalid show ?thesis by blast
qed

theorem self_check_within_validate_witness:
  "list_all (\<lambda>kn. is_dict (snd kn))
     (workflow \<lparr>workflow = [(''1'', JDict [(''inputs'', JDict [(''image'', JList [JInt 9, JInt 0])])])],
                next_node_id = 2\<rparr>) \<and>
   manipulator_validate
     \<lparr>workflow = [(''1'', JDict [(''inputs'', JDict [(''image'', JList [JInt 9, JInt 0])])])],
      next_node_id = 2\<rparr> =
     Inr (False, map render_defect [MissingClassType ''1'', DanglingLink ''1'' ''image'' ''9'']) \<and>
   validate (\<lambda>word possibilities. [])
     \<lparr>nodes = [(''LoadImage'',
         \<lparr>class_type = ''LoadImage'', category = JStr [], display_name = JStr ''LoadImage'',
          description = JStr [], inputs_required = [], inputs_optional = [],
          output_types = [JStr ''IMAGE''], output_names = []\<rparr>)],
      last_fetch = 1000, fetched = True\<rparr>
     (workflow \<lparr>workflow = [(''1'', JDict [(''inputs'', JDict [(''image'', JList [JInt 9, JInt 0])])])],
                next_node_id = 2\<rparr>) =
     Inr \<lparr>valid = False,
          issues = [issue_of_defect (MissingClassType ''1''),
                    issue_of_defect (DanglingLink ''1'' ''image'' ''9'')],
          node_count = 1, validated_against_registry = True\<rparr>"
  (is "?dicts \<and> ?self \<and> ?full")
proof -
  have dicts: ?dicts by code_simp
  have self: ?self by code_simp
  have full: ?full by code_simp
  from self_check_within_validate [OF dicts self full] dicts self full
  show ?thesis by blast
qed

text \<open>
  Claim C4 as stated fails: with a registry that is not loaded the manipulator's check
  flags the link to the absent node 9, and the validator's report has no issue and is
  valid.
\<close>

theorem self_check_dangling_unloaded_counterexample:
  "manipulator_validate
     \<lparr>workflow = [(''1'', JDict [(''class_type'', JStr ''Blur''),
                     (''inputs'', JDict [(''image'', JList [JStr ''9'', JInt 0])])])],
      next_node_id = 2\<rparr> =
     Inr (False, map render_defect [DanglingLink ''1'' ''image'' ''9'']) \<and>
   validate (\<lambda>word possibilities. []) new_registry
     [(''1'', JDict [(''class_type'', JStr ''Blur''),
                     (''inputs'', JDict [(''image'', JList [JStr ''9'', JInt 0])])])] =
     Inr \<lparr>valid = True, issues = [], node_count = 1, validated_against_registry = False\<rparr>"
  by code_simp

section \<open>Nodes whose class type is not in the registry\<close>

lemma node_issues_node_id:
  assumes "node_issues gcm reg g (k, n) = Inr ys" and "i \<in> set ys"
  shows "node_id i = k"
proof (cases n)
  case (JDict flds)
  from node_issues_parts [OF assms(1) [unfolded JDict]] obtain x1 x2 x3 x4 x5 x6 x7 where
    parts: "check_node_exists gcm reg k (get_or flds ''class_type'' (JStr [])) = Inr x1"
      "check_required_inputs reg k (get_or flds ''class_type'' (JStr []))
         (get_or flds ''inputs'' (JDict [])) = Inr x2"
      "check_link_validity k (get_or flds ''inputs'' (JDict [])) g = Inr x3"
      "check_output_slot_range reg k (get_or flds ''inputs'' (JDict [])) g = Inr x4"
      "check_type_compatibility reg k (get_or flds ''class_type'' (JStr []))
         (get_or flds ''inputs'' (JDict [])) g = Inr x5"
      "check_value_ranges reg k (get_or flds ''class_type'' (JStr []))
         (get_or flds ''inputs'' (JDict [])) = Inr x6"
      "check_combo_values reg k (get_or flds ''class_type'' (JStr []))
         (get_or flds ''inputs'' (JDict [])) = Inr x7"
      "ys = x1 @ x2 @ x3 @ x4 @ x5 @ x6 @ x7" by blast
  from assms(2) parts(8)
    tagged_node_exists [OF parts(1)] tagged_required_inputs [OF parts(2)]
    tagged_link_validity [OF parts(3)] tagged_slot_range [OF parts(4)]
    tagged_type_compatibility [OF parts(5)] tagged_value_ranges [OF parts(6)]
    tagged_combo_values [OF parts(7)]
  show ?thesis by (auto simp: tagged_def list_all_iff)
qed (use assms in \<open>simp_all add: node_issues_def\<close>)

lemma not_found_get_node: "node_exists reg ct = Inr False \<Longrightarrow> get_node reg ct = Inr None"
  by (auto simp: node_exists_def get_node_def split: sum.splits)

lemma not_found_issue:
  assumes "truthy ct" and "node_exists reg ct = Inr False"
    and "check_node_exists gcm reg nid ct = Inr x1"
  shows "\<exists>i \<in> set x1. check i = ''node_not_found'' \<and> node_id i = nid \<and> severity i = ''error''"
  using assms by (cases ct) (auto simp: check_node_exists_def)

text \<open>
  Claim C10, as amended. With a loaded registry and distinct node ids, for a node whose
  class type is a non-empty value that the registry does not have, a report that
  \<^verbatim>\<open>validate\<close> returns holds a \<^verbatim>\<open>node_not_found\<close> error for that node and no
  required-input, value-range or combo issue for it, whatever its inputs are; each of
  its links to a node that is not in the graph is still reported as \<^verbatim>\<open>link_invalid\<close>.
\<close>

theorem unresolved_class_type_skips_checks:
  assumes loaded: "is_loaded reg"
    and keys: "distinct (map fst g)"
    and node: "(nid, JDict flds) \<in> set g"
    and named: "truthy (get_or flds ''class_type'' (JStr []))"
    and absent: "node_exists reg (get_or flds ''class_type'' (JStr [])) = Inr False"
    and v: "validate gcm reg g = Inr r"
  shows "(\<exists>i \<in> set (issues r). check i = ''node_not_found'' \<and> node_id i = nid \<and> severity i = ''error'') \<and>
         (\<forall>i \<in> set (issues r). node_id i = nid \<longrightarrow>
            check i \<noteq> ''required_input_missing'' \<and> check i \<noteq> ''value_out_of_range'' \<and>
            check i \<noteq> ''invalid_combo_value'') \<and>
         (\<forall>inputs inp a b. get_or flds ''inputs'' (JDict []) = JDict inputs \<longrightarrow>
            (inp, JList [a, b]) \<in> set inputs \<longrightarrow> \<not> has_key (py_str a) g \<longrightarrow>
            issue_of_defect (DanglingLink nid inp (py_str a)) \<in> set (issues r))"
proof -
  let ?ct = "get_or flds ''class_type'' (JStr [])"
  let ?inp = "get_or flds ''inputs'' (JDict [])"
  from node have "g \<noteq> []" by auto
  from validate_issues [OF v this] loaded obtain found where
    found: "collect (node_issues gcm reg g) g = Inr found" "issues r = check_structure g @ found"
    by auto
  from collect_Inr_member [OF found(1) node] obtain xs where
    xs: "node_issues gcm reg g (nid, JDict flds) = Inr xs" "set xs \<subseteq> set found" by blast
  from node_issues_parts [OF xs(1)] obtain x1 x2 x3 x4 x5 x6 x7 where
    parts: "check_node_exists gcm reg nid ?ct = Inr x1"
      "check_required_inputs reg nid ?ct ?inp = Inr x2"
      "check_link_validity nid ?inp g = Inr x3"
      "check_output_slot_range reg nid ?inp g = Inr x4"
      "check_type_compatibility reg nid ?ct ?inp g = Inr x5"
      "check_value_ranges reg nid ?ct ?inp = Inr x6"
      "check_combo_values reg nid ?ct ?inp = Inr x7"
      "xs = x1 @ x2 @ x3 @ x4 @ x5 @ x6 @ x7" by blast
  have none: "get_node reg ?ct = Inr None" by (rule not_found_get_node [OF absent])
  from parts(2) none have x2: "x2 = []" by (simp add: check_required_inputs_def)
  from parts(5) none have x5: "x5 = []" by (simp add: check_type_compatibility_def)
  from parts(6) none have x6: "x6 = []" by (simp add: check_value_ranges_def)
  from parts(7) none have x7: "x7 = []" by (simp add: check_combo_values_def)
  have first: "\<exists>i \<in> set (issues r). check i = ''node_not_found'' \<and> node_id i = nid \<and> severity i = ''error''"
  proof -
    from not_found_issue [OF named absent parts(1)] obtain i where
      "i \<in> set x1" "check i = ''node_not_found'' \<and> node_id i = nid \<and> severity i = ''error''" by blast
    with parts(8) xs(2) found(2) show ?thesis by auto
  qed
  have second: "check i \<noteq> ''required_input_missing'' \<and> check i \<noteq> ''value_out_of_range'' \<and>
      check i \<noteq> ''invalid_combo_value''"
    if i: "i \<in> set (issues r)" and id: "node_id i = nid" for i
  proof (cases "i \<in> set (check_structure g)")
    case True
    then obtain kn where "i \<in> set (structure_issues kn)" by (auto simp: check_structure_def)
    from tagged_structure_issues [OF this] show ?thesis by auto
  next
    case False
    with i found(2) have "i \<in> set found" by simp
    from collect_Inr_origin [OF found(1) this] obtain kn ys where
      kn: "kn \<in> set g" "node_issues gcm reg g kn = Inr ys" "i \<in> set ys" by blast
    obtain k n where kn_eq: "kn = (k, n)" by (cases kn)
    from node_issues_node_id [OF kn(2) [unfolded kn_eq] kn(3)] id have "k = nid" by simp
    with kn(1) kn_eq have "(nid, n) \<in> set g" by simp
    from eq_key_imp_eq_value [OF keys this node] have "n = JDict flds" .
    with kn(2) kn_eq \<open>k = nid\<close> xs(1) have "ys = xs" by simp
    with kn(3) parts(8) x2 x5 x6 x7 have "i \<in> set x1 \<or> i \<in> set x3 \<or> i \<in> set x4" by auto
    with tagged_node_exists [OF parts(1)] tagged_link_validity [OF parts(3)]
      tagged_slot_range [OF parts(4)]
    show ?thesis by (auto simp: tagged_def list_all_iff)
  qed
  have third: "issue_of_defect (DanglingLink nid inp (py_str a)) \<in> set (issues r)"
    if "?inp = JDict inputs" "(inp, JList [a, b]) \<in> set inputs" "\<not> has_key (py_str a) g"
    for inputs inp a b
  proof -
    from parts(3) that(1) have "x3 = concat (map (link_issue g nid) inputs)"
      by (simp add: check_link_validity_def)
    with link_issue_member [OF that(2) that(3), of nid]
    have "issue_of_defect (DanglingLink nid inp (py_str a)) \<in> set x3" by simp
    with parts(8) xs(2) found(2) show ?thesis by auto
  qed
  from first second third show ?thesis by blast
qed

theorem unresolved_class_type_skips_checks_witness:
  "is_loaded
     \<lparr>nodes = [(''LoadImage'',
         \<lparr>class_type = ''LoadImage'', category = JStr [], display_name = JStr ''LoadImage'',
          description = JStr [], inputs_required = [], inputs_optional = [],
          output_types = [JStr ''IMAGE''], output_names = []\<rparr>)],
      last_fetch = 1000, fetched = True\<rparr> \<and>
   distinct (map fst
     [(''1'', JDict [(''class_type'', JStr ''LoadImage''), (''inputs'', JDict [])]),
      (''2'', JDict [(''class_type'', JStr ''Blur2''),
        (''inputs'', JDict [(''image'', JList [JStr ''7'', JInt 0]), (''radius'', JInt 999)])])]) \<and>
   (''2'', JDict
       [(''class_type'', JStr ''Blur2''),
        (''inputs'', JDict [(''image'', JList [JStr ''7'', JInt 0]), (''radius'', JInt 999)])]) \<in> set
     [(''1'', JDict [(''class_type'', JStr ''LoadImage''), (''inputs'', JDict [])]),
      (''2'', JDict [(''class_type'', JStr ''Blur2''),
        (''inputs'', JDict [(''image'', JList [JStr ''7'', JInt 0]), (''radius'', JInt 999)])])] \<and>
   truthy (get_or
       [(''class_type'', JStr ''Blur2''),
        (''inputs'', JDict [(''image'', JList [JStr ''7'', JInt 0]), (''radius'', JInt 999)])] ''class_type'' (JStr [])) \<and>
   node_exists
     \<lparr>nodes = [(''LoadImage'',
         \<lparr>class_type = ''LoadImage'', category = JStr [], display_name = JStr ''LoadImage'',
          description = JStr [], inputs_required = [], inputs_optional = [],
          output_types = [JStr ''IMAGE''], output_names = []\<rparr>)],
      last_fetch = 1000, fetched = True\<rparr>
     (get_or
       [(''class_type'', JStr ''Blur2''),
        (''inputs'', JDict [(''image'', JList [JStr ''7'', JInt 0]), (''radius'', JInt 999)])] ''class_type'' (JStr [])) = Inr False \<and>
   map_sum id (\<lambda>r. map check (issues r))
     (validate (\<lambda>word possibilities. [])
     \<lparr>nodes = [(''LoadImage'',
         \<lparr>class_type = ''LoadImage'', category = JStr [], display_name = JStr ''LoadImage'',
          description = JStr [], inputs_required = [], inputs_optional = [],
          output_types = [JStr ''IMAGE''], output_names = []\<rparr>)],
      last_fetch = 1000, fetched = True\<rparr>
     [(''1'', JDict [(''class_type'', JStr ''LoadImage''), (''inputs'', JDict [])]),
      (''2'', JDict [(''class_type'', JStr ''Blur2''),
        (''inputs'', JDict [(''image'', JList [JStr ''7'', JInt 0]), (''radius'', JInt 999)])])]) = Inr [''node_not_found'', ''link_invalid'']"
  (is "?loaded \<and> ?keys \<and> ?node \<and> ?named \<and> ?absent \<and> ?report")
proof -
  have loaded: ?loaded by code_simp
  have keys: ?keys by code_simp
  have node: ?node by code_simp
  have named: ?named by code_simp
  have absent: ?absent by code_simp
  have report: ?report by code_simp
  then obtain r where r: "validate (\<lambda>word possibilities. [])
     \<lparr>nodes = [(''LoadImage'',
         \<lparr>class_type = ''LoadImage'', category = JStr [], display_name = JStr ''LoadImage'',
          description = JStr [], inputs_required = [], inputs_optional = [],
          output_types = [JStr ''IMAGE''], output_names = []\<rparr>)],
      last_fetch = 1000, fetched = True\<rparr>
     [(''1'', JDict [(''class_type'', JStr ''LoadImage''), (''inputs'', JDict [])]),
      (''2'', JDict [(''class_type'', JStr ''Blur2''),
        (''inputs'', JDict [(''image'', JList [JStr ''7'', JInt 0]), (''radius'', JInt 999)])])] = Inr r"
    by (auto simp: map_sum_def split: sum.splits)
  from unresolved_class_type_skips_checks [OF loaded keys node named absent r]
    loaded keys node named absent report
  show ?thesis by blast
qed

text \<open>
  Claim C10 as stated fails: with a registry that is not loaded the class type is absent
  from the registry and the report has no \<^verbatim>\<open>node_not_found\<close> issue.
\<close>

theorem unloaded_registry_no_type_exists_counterexample:
  "node_exists new_registry (JStr ''Blur2'') = Inr False \<and>
   validate (\<lambda>word possibilities. []) new_registry
     [(''1'', JDict [(''class_type'', JStr ''Blur2''), (''inputs'', JDict [])])] =
     Inr \<lparr>valid = True, issues = [], node_count = 1, validated_against_registry = False\<rparr>"
  by code_simp

section \<open>The issues of one node in the report\<close>

lemma collect_concat:
  "collect f xs = Inr zs \<Longrightarrow> zs = concat (map (\<lambda>x. emitted (f x)) xs)"
proof (induction xs arbitrary: zs)
  case Nil
  then show ?case by simp
next
  case (Cons x xs)
  from Cons.prems obtain ys ws where
    parts: "f x = Inr ys" "collect f xs = Inr ws" "zs = ys @ ws"
    by (auto split: sum.splits)
  from Cons.IH [OF parts(2)] parts show ?case by (simp add: emitted_def)
qed

lemma concat_single:
  assumes "distinct (map fst g)" and "(k, n) \<in> set g"
    and "\<And>kn. kn \<in> set g \<Longrightarrow> fst kn \<noteq> k \<Longrightarrow> h kn = []"
  shows "concat (map h g) = h (k, n)"
  using assms
proof (induction g)
  case Nil
  then show ?case by simp
next
  case (Cons p g)
  show ?case
  proof (cases "p = (k, n)")
    case True
    with Cons.prems(1) have "k \<notin> fst ` set g" by auto
    then have "\<And>kn. kn \<in> set g \<Longrightarrow> fst kn \<noteq> k" by force
    with Cons.prems(3) have "concat (map h g) = []" by simp
    with True show ?thesis by simp
  next
    case False
    with Cons.prems(2) have in_g: "(k, n) \<in> set g" by simp
    then have "k \<in> fst ` set g" by force
    with Cons.prems(1) have "fst p \<noteq> k" by auto
    with Cons.prems(3) have "h p = []" by simp
    moreover from Cons.IH [OF _ in_g] Cons.prems(1,3) have "concat (map h g) = h (k, n)" by simp
    ultimately show ?thesis by simp
  qed
qed

lemma filter_tagged:
  "tagged c nid sev xs \<Longrightarrow> filter (\<lambda>i. check i = c') xs = (if c = c' \<or> xs = [] then xs else [])"
  by (induction xs) (auto simp: tagged_def)

lemma report_of_node:
  assumes v: "validate gcm reg g = Inr r"
    and loaded: "is_loaded reg"
    and ids: "distinct (map fst g)"
    and node: "(nid, JDict flds) \<in> set g"
    and c: "registry_check c"
  shows "\<exists>xs. node_issues gcm reg g (nid, JDict flds) = Inr xs \<and>
           filter (\<lambda>i. node_id i = nid \<and> check i = c) (issues r) = filter (\<lambda>i. check i = c) xs"
proof -
  let ?P = "\<lambda>i. node_id i = nid \<and> check i = c"
  let ?h = "\<lambda>kn. filter ?P (emitted (node_issues gcm reg g kn))"
  from node have "g \<noteq> []" by auto
  from validate_issues [OF v this] loaded obtain found where
    found: "collect (node_issues gcm reg g) g = Inr found" "issues r = check_structure g @ found"
    by auto
  from collect_Inr_member [OF found(1) node] obtain xs where
    xs: "node_issues gcm reg g (nid, JDict flds) = Inr xs" by blast
  have structural: "filter ?P (check_structure g) = []"
  proof -
    have "\<not> ?P i" if "i \<in> set (check_structure g)" for i
    proof -
      from that obtain kn where "i \<in> set (structure_issues kn)" by (auto simp: check_structure_def)
      from tagged_structure_issues [OF this] c show ?thesis
        by (auto simp: registry_check_def)
    qed
    then show ?thesis by (simp add: filter_empty_conv)
  qed
  have others: "?h kn = []" if "kn \<in> set g" "fst kn \<noteq> nid" for kn
  proof (cases "node_issues gcm reg g kn")
    case (Inl e)
    then show ?thesis by (simp add: emitted_def)
  next
    case (Inr ys)
    have "node_id i = fst kn" if "i \<in> set ys" for i
      using node_issues_node_id [of gcm reg g "fst kn" "snd kn" ys i] Inr that by simp
    with that(2) Inr show ?thesis by (auto simp: emitted_def filter_empty_conv)
  qed
  have own: "?h (nid, JDict flds) = filter (\<lambda>i. check i = c) xs"
  proof -
    have "node_id i = nid" if "i \<in> set xs" for i
      using node_issues_node_id [OF xs that] .
    then show ?thesis by (auto simp: xs emitted_def intro: filter_cong)
  qed
  from collect_concat [OF found(1)]
  have "filter ?P found = concat (map ?h g)" by (simp add: filter_concat comp_def)
  also have "\<dots> = ?h (nid, JDict flds)" by (rule concat_single [OF ids node others])
  finally have "filter ?P found = filter (\<lambda>i. check i = c) xs" by (simp add: own)
  with structural found(2) xs show ?thesis by simp
qed

lemma node_check_issues:
  assumes "node_issues gcm reg g (nid, JDict flds) = Inr xs"
  shows "filter (\<lambda>i. check i = ''link_invalid'') xs =
           emitted (check_link_validity nid (get_or flds ''inputs'' (JDict [])) g)"
    "filter (\<lambda>i. check i = ''output_slot_out_of_range'') xs =
           emitted (check_output_slot_range reg nid (get_or flds ''inputs'' (JDict [])) g)"
    "filter (\<lambda>i. check i = ''type_mismatch'') xs =
           emitted (check_type_compatibility reg nid (get_or flds ''class_type'' (JStr []))
             (get_or flds ''inputs'' (JDict [])) g)"
    "filter (\<lambda>i. check i = ''value_out_of_range'') xs =
           emitted (check_value_ranges reg nid (get_or flds ''class_type'' (JStr []))
             (get_or flds ''inputs'' (JDict [])))"
    "filter (\<lambda>i. check i = ''invalid_combo_value'') xs =
           emitted (check_combo_values reg nid (get_or flds ''class_type'' (JStr []))
             (get_or flds ''inputs'' (JDict [])))"
proof -
  from node_issues_parts [OF assms] obtain x1 x2 x3 x4 x5 x6 x7 where
    parts: "check_node_exists gcm reg nid (get_or flds ''class_type'' (JStr [])) = Inr x1"
      "check_required_inputs reg nid (get_or flds ''class_type'' (JStr []))
         (get_or flds ''inputs'' (JDict [])) = Inr x2"
      "check_link_validity nid (get_or flds ''inputs'' (JDict [])) g = Inr x3"
      "check_output_slot_range reg nid (get_or flds ''inputs'' (JDict [])) g = Inr x4"
      "check_type_compatibility reg nid (get_or flds ''class_type'' (JStr []))
         (get_or flds ''inputs'' (JDict [])) g = Inr x5"
      "check_value_ranges reg nid (get_or flds ''class_type'' (JStr []))
         (get_or flds ''inputs'' (JDict [])) = Inr x6"
      "check_combo_values reg nid (get_or flds ''class_type'' (JStr []))
         (get_or flds ''inputs'' (JDict [])) = Inr x7"
      "xs = x1 @ x2 @ x3 @ x4 @ x5 @ x6 @ x7" by blast
  note tags = filter_tagged [OF tagged_node_exists [OF parts(1)]]
    filter_tagged [OF tagged_required_inputs [OF parts(2)]]
    filter_tagged [OF tagged_link_validity [OF parts(3)]]
    filter_tagged [OF tagged_slot_range [OF parts(4)]]
    filter_tagged [OF tagged_type_compatibility [OF parts(5)]]
    filter_tagged [OF tagged_value_ranges [OF parts(6)]]
    filter_tagged [OF tagged_combo_values [OF parts(7)]]
  show "filter (\<lambda>i. check i = ''link_invalid'') xs =
           emitted (check_link_validity nid (get_or flds ''inputs'' (JDict [])) g)"
    by (simp add: parts emitted_def tags)
  show "filter (\<lambda>i. check i = ''output_slot_out_of_range'') xs =
           emitted (check_output_slot_range reg nid (get_or flds ''inputs'' (JDict [])) g)"
    by (simp add: parts emitted_def tags)
  show "filter (\<lambda>i. check i = ''type_mismatch'') xs =
           emitted (check_type_compatibility reg nid (get_or flds ''class_type'' (JStr []))
             (get_or flds ''inputs'' (JDict [])) g)"
    by (simp add: parts emitted_def tags)
  show "filter (\<lambda>i. check i = ''value_out_of_range'') xs =
           emitted (check_value_ranges reg nid (get_or flds ''class_type'' (JStr []))
             (get_or flds ''inputs'' (JDict [])))"
    by (simp add: parts emitted_def tags)
  show "filter (\<lambda>i. check i = ''invalid_combo_value'') xs =
           emitted (check_combo_values reg nid (get_or flds ''class_type'' (JStr []))
             (get_or flds ''inputs'' (JDict [])))"
    by (simp add: parts emitted_def tags)
qed

lemma type_issue_unresolved:
  "get_node reg ct = Inr None \<Longrightarrow> emitted (type_issue reg g nid ct kv) = []"
  by (cases "(reg, g, nid, ct, kv)" rule: type_issue.cases)
     (auto simp: emitted_def get_node_def get_input_type_def split: sum.splits option.splits)

lemma emitted_type_compatibility:
  assumes "check_type_compatibility reg nid ct (JDict d) g = Inr xs"
  shows "xs = concat (map (\<lambda>kv. emitted (type_issue reg g nid ct kv)) d)"
proof (cases "get_node reg ct")
  case (Inl e)
  with assms show ?thesis by (simp add: check_type_compatibility_def)
next
  case (Inr found)
  show ?thesis
  proof (cases found)
    case None
    with Inr assms have "xs = []" by (simp add: check_type_compatibility_def)
    moreover from None Inr have "emitted (type_issue reg g nid ct kv) = []" for kv
      by (simp add: type_issue_unresolved)
    ultimately show ?thesis by simp
  next
    case (Some node_def)
    with Inr assms have "collect (type_issue reg g nid ct) d = Inr xs"
      by (simp add: check_type_compatibility_def)
    then show ?thesis by (rule collect_concat)
  qed
qed



lemma report_type_issues:
  assumes "validate gcm reg g = Inr r" and "is_loaded reg" and "distinct (map fst g)"
    and "(nid, JDict flds) \<in> set g" and "get_or flds ''inputs'' (JDict []) = JDict d"
  shows "filter (\<lambda>i. node_id i = nid \<and> check i = ''type_mismatch'') (issues r) =
           concat (map (\<lambda>kv. emitted (type_issue reg g nid
             (get_or flds ''class_type'' (JStr [])) kv)) d)"
proof -
  from report_of_node [OF assms(1-4), of "''type_mismatch''"] obtain xs where
    xs: "node_issues gcm reg g (nid, JDict flds) = Inr xs"
      "filter (\<lambda>i. node_id i = nid \<and> check i = ''type_mismatch'') (issues r) =
       filter (\<lambda>i. check i = ''type_mismatch'') xs"
    by (auto simp: registry_check_def)
  from node_issues_parts [OF xs(1)] obtain x5 where
    x5: "check_type_compatibility reg nid (get_or flds ''class_type'' (JStr []))
           (get_or flds ''inputs'' (JDict [])) g = Inr x5" by blast
  from emitted_type_compatibility [OF x5 [unfolded assms(5)]] x5
  have "emitted (check_type_compatibility reg nid (get_or flds ''class_type'' (JStr []))
           (get_or flds ''inputs'' (JDict [])) g) =
      concat (map (\<lambda>kv. emitted (type_issue reg g nid (get_or flds ''class_type'' (JStr [])) kv)) d)"
    by (simp add: emitted_def)
  with xs(2) node_check_issues(3) [OF xs(1)] show ?thesis by simp
qed

section \<open>Type compatibility of links\<close>

text \<open>
  Claim C8, as amended. In every report that \<^verbatim>\<open>validate\<close> returns with a loaded
  registry, the \<^verbatim>\<open>type_mismatch\<close> issues of a node (a record, with an id unique in the
  graph) are what check 5 yields on each of its inputs in turn, and every
  \<^verbatim>\<open>type_mismatch\<close> issue of the report is a warning. For an input that is a link whose
  source node and class type resolve, whose slot has a non-empty output tag in the
  registry and whose target input is declared, check 5 yields one issue exactly when the
  output tag differs from the declared input type and neither is the wildcard, and this
  issue is in the report; otherwise it yields none for this input.
\<close>

theorem type_mismatch_issues_of_node:
  assumes loaded: "is_loaded reg"
    and ids: "distinct (map fst g)"
    and node: "(nid, JDict flds) \<in> set g"
    and inputs: "get_or flds ''inputs'' (JDict []) = JDict d"
    and v: "validate gcm reg g = Inr r"
  shows "filter (\<lambda>i. node_id i = nid \<and> check i = ''type_mismatch'') (issues r) =
           concat (map (\<lambda>kv. emitted (type_issue reg g nid
             (get_or flds ''class_type'' (JStr [])) kv)) d) \<and>
         (\<forall>i \<in> set (issues r). check i = ''type_mismatch'' \<longrightarrow> severity i = ''warning'') \<and>
         (\<forall>inp a slot_index source_type output_type expected_type req.
            (inp, JList [a, slot_index]) \<in> set d \<longrightarrow>
            source_class g (py_str a) = Inr (Some source_type) \<longrightarrow>
            get_output_type reg source_type slot_index = Inr (Some output_type) \<longrightarrow>
            truthy output_type \<longrightarrow>
            get_input_type reg (get_or flds ''class_type'' (JStr [])) inp =
              Inr (Some (expected_type, req)) \<longrightarrow>
            type_issue reg g nid (get_or flds ''class_type'' (JStr [])) (inp, JList [a, slot_index]) =
              Inr (if output_type \<noteq> JStr expected_type \<and> expected_type \<noteq> ''*'' \<and>
                      output_type \<noteq> JStr ''*''
                   then [warning_issue ''type_mismatch'' nid
                           (''Node '' @ repr_str nid @ '' input '' @ repr_str inp @
                            '' expects '' @ repr_str expected_type @
                            '' but receives '' @ py_repr output_type @
                            '' from node '' @ repr_str (py_str a) @
                            '' slot '' @ py_str slot_index)]
                   else []) \<and>
            (output_type \<noteq> JStr expected_type \<and> expected_type \<noteq> ''*'' \<and>
               output_type \<noteq> JStr ''*'' \<longrightarrow>
             warning_issue ''type_mismatch'' nid
               (''Node '' @ repr_str nid @ '' input '' @ repr_str inp @
                '' expects '' @ repr_str expected_type @
                '' but receives '' @ py_repr output_type @
                '' from node '' @ repr_str (py_str a) @
                '' slot '' @ py_str slot_index) \<in> set (issues r)) \<and>
            (\<forall>before after. d = before @ (inp, JList [a, slot_index]) # after \<longrightarrow>
               filter (\<lambda>i. node_id i = nid \<and> check i = ''type_mismatch'') (issues r) =
                 concat (map (\<lambda>kv. emitted (type_issue reg g nid
                   (get_or flds ''class_type'' (JStr [])) kv)) before) @
                 (if output_type \<noteq> JStr expected_type \<and> expected_type \<noteq> ''*'' \<and>
                     output_type \<noteq> JStr ''*''
                  then [warning_issue ''type_mismatch'' nid
                          (''Node '' @ repr_str nid @ '' input '' @ repr_str inp @
                           '' expects '' @ repr_str expected_type @
                           '' but receives '' @ py_repr output_type @
                           '' from node '' @ repr_str (py_str a) @
                           '' slot '' @ py_str slot_index)]
                  else []) @
                 concat (map (\<lambda>kv. emitted (type_issue reg g nid
                   (get_or flds ''class_type'' (JStr [])) kv)) after)))"
proof (intro conjI allI impI ballI)
  let ?ct = "get_or flds ''class_type'' (JStr [])"
  show report: "filter (\<lambda>i. node_id i = nid \<and> check i = ''type_mismatch'') (issues r) =
      concat (map (\<lambda>kv. emitted (type_issue reg g nid ?ct kv)) d)"
    by (rule report_type_issues [OF v loaded ids node inputs])
  {
    fix i
    assume i: "i \<in> set (issues r)" and c: "check i = ''type_mismatch''"
    from node have "g \<noteq> []" by auto
    from validate_issues [OF v this] loaded obtain found where
      found: "collect (node_issues gcm reg g) g = Inr found" "issues r = check_structure g @ found"
      by auto
    show "severity i = ''warning''"
    proof (cases "i \<in> set (check_structure g)")
      case True
      then obtain kn where "i \<in> set (structure_issues kn)" by (auto simp: check_structure_def)
      from tagged_structure_issues [OF this] c show ?thesis by auto
    next
      case False
      with i found(2) have "i \<in> set found" by simp
      from collect_Inr_origin [OF found(1) this] obtain kn ys where
        kn: "kn \<in> set g" "node_issues gcm reg g kn = Inr ys" "i \<in> set ys" by blast
      obtain k n where kn_eq: "kn = (k, n)" by (cases kn)
      show ?thesis
      proof (cases n)
        case (JDict flds')
        from kn(2) have own: "node_issues gcm reg g (k, JDict flds') = Inr ys"
          by (simp add: kn_eq JDict)
        from kn(3) c have "i \<in> set (filter (\<lambda>i. check i = ''type_mismatch'') ys)" by simp
        with node_check_issues(3) [OF own] obtain x5 where
          "check_type_compatibility reg k (get_or flds' ''class_type'' (JStr []))
             (get_or flds' ''inputs'' (JDict [])) g = Inr x5" "i \<in> set x5"
          by (cases "check_type_compatibility reg k (get_or flds' ''class_type'' (JStr []))
             (get_or flds' ''inputs'' (JDict [])) g") (auto simp: emitted_def)
        with tagged_type_compatibility [OF this(1)] show ?thesis
          by (auto simp: tagged_def list_all_iff)
      qed (use kn kn_eq in \<open>simp_all add: node_issues_def\<close>)
    qed
  }
  fix inp a slot_index source_type output_type expected_type req
  assume entry: "(inp, JList [a, slot_index]) \<in> set d"
    and src: "source_class g (py_str a) = Inr (Some source_type)"
    and out: "get_output_type reg source_type slot_index = Inr (Some output_type)"
    and tag: "truthy output_type"
    and exp: "get_input_type reg ?ct inp = Inr (Some (expected_type, req))"
  let ?w = "warning_issue ''type_mismatch'' nid
              (''Node '' @ repr_str nid @ '' input '' @ repr_str inp @
               '' expects '' @ repr_str expected_type @
               '' but receives '' @ py_repr output_type @
               '' from node '' @ repr_str (py_str a) @
               '' slot '' @ py_str slot_index)"
  show body: "type_issue reg g nid ?ct (inp, JList [a, slot_index]) =
      Inr (if output_type \<noteq> JStr expected_type \<and> expected_type \<noteq> ''*'' \<and>
              output_type \<noteq> JStr ''*''
           then [?w] else [])"
    using src out tag exp by simp
  {
    assume differ: "output_type \<noteq> JStr expected_type \<and> expected_type \<noteq> ''*'' \<and>
        output_type \<noteq> JStr ''*''"
    with body have "?w \<in> set (emitted (type_issue reg g nid ?ct (inp, JList [a, slot_index])))"
      by (simp add: emitted_def)
    with entry have "?w \<in> set (concat (map (\<lambda>kv. emitted (type_issue reg g nid ?ct kv)) d))"
      by (simp only: set_concat set_map) blast
    with report have "?w \<in> set (filter (\<lambda>i. node_id i = nid \<and> check i = ''type_mismatch'') (issues r))"
      by simp
    then show "?w \<in> set (issues r)" by simp
  }
  fix before after
  assume "d = before @ (inp, JList [a, slot_index]) # after"
  with report have "filter (\<lambda>i. node_id i = nid \<and> check i = ''type_mismatch'') (issues r) =
      concat (map (\<lambda>kv. emitted (type_issue reg g nid ?ct kv)) before) @
      emitted (type_issue reg g nid ?ct (inp, JList [a, slot_index])) @
      concat (map (\<lambda>kv. emitted (type_issue reg g nid ?ct kv)) after)"
    by (simp only: map_append list.map concat_append concat.simps)
  also have "emitted (type_issue reg g nid ?ct (inp, JList [a, slot_index])) =
      (if output_type \<noteq> JStr expected_type \<and> expected_type \<noteq> ''*'' \<and>
          output_type \<noteq> JStr ''*''
       then [?w] else [])"
    unfolding body by (simp only: emitted_def sum.case)
  finally show "filter (\<lambda>i. node_id i = nid \<and> check i = ''type_mismatch'') (issues r) =
      concat (map (\<lambda>kv. emitted (type_issue reg g nid ?ct kv)) before) @
      (if output_type \<noteq> JStr expected_type \<and> expected_type \<noteq> ''*'' \<and>
          output_type \<noteq> JStr ''*''
       then [?w] else []) @
      concat (map (\<lambda>kv. emitted (type_issue reg g nid ?ct kv)) after)" .
qed

theorem type_mismatch_issues_of_node_witness:
  "is_loaded
     \<lparr>nodes = [(''LoadImage'',
         \<lparr>class_type = ''LoadImage'', category = JStr [], display_name = JStr ''LoadImage'',
          description = JStr [], inputs_required = [], inputs_optional = [],
          output_types = [JStr ''IMAGE''], output_names = []\<rparr>),
        (''Blur'',
         \<lparr>class_type = ''Blur'', category = JStr [], display_name = JStr ''Blur'',
          description = JStr [],
          inputs_required = [(''mask'',
             \<lparr>name = ''mask'', type = ''MASK'', required = True, default_val = JNull,
              min_val = JNull, max_val = JNull, options = None\<rparr>)],
          inputs_optional = [],
          output_types = [JStr ''IMAGE''], output_names = []\<rparr>)],
      last_fetch = 1000, fetched = True\<rparr> \<and>
   distinct (map fst
     [(''1'', JDict [(''class_type'', JStr ''LoadImage''), (''inputs'', JDict [])]),
      (''2'', JDict [(''class_type'', JStr ''Blur''),
        (''inputs'', JDict [(''mask'', JList [JStr ''1'', JInt 0])])])]) \<and>
   (''2'', JDict
       [(''class_type'', JStr ''Blur''),
        (''inputs'', JDict [(''mask'', JList [JStr ''1'', JInt 0])])]) \<in> set
     [(''1'', JDict [(''class_type'', JStr ''LoadImage''), (''inputs'', JDict [])]),
      (''2'', JDict [(''class_type'', JStr ''Blur''),
        (''inputs'', JDict [(''mask'', JList [JStr ''1'', JInt 0])])])] \<and>
   get_or
       [(''class_type'', JStr ''Blur''),
        (''inputs'', JDict [(''mask'', JList [JStr ''1'', JInt 0])])] ''inputs'' (JDict []) = JDict [(''mask'', JList [JStr ''1'', JInt 0])] \<and>
   validate (\<lambda>word possibilities. [])
     \<lparr>nodes = [(''LoadImage'',
         \<lparr>class_type = ''LoadImage'', category = JStr [], display_name = JStr ''LoadImage'',
          description = JStr [], inputs_required = [], inputs_optional = [],
          output_types = [JStr ''IMAGE''], output_names = []\<rparr>),
        (''Blur'',
         \<lparr>class_type = ''Blur'', category = JStr [], display_name = JStr ''Blur'',
          description = JStr [],
          inputs_required = [(''mask'',
             \<lparr>name = ''mask'', type = ''MASK'', required = True, default_val = JNull,
              min_val = JNull, max_val = JNull, options = None\<rparr>)],
          inputs_optional = [],
          output_types = [JStr ''IMAGE''], output_names = []\<rparr>)],
      last_fetch = 1000, fetched = True\<rparr>
     [(''1'', JDict [(''class_type'', JStr ''LoadImage''), (''inputs'', JDict [])]),
      (''2'', JDict [(''class_type'', JStr ''Blur''),
        (''inputs'', JDict [(''mask'', JList [JStr ''1'', JInt 0])])])] =
     Inr \<lparr>valid = True,
          issues = [warning_issue ''type_mismatch'' ''2''
            (''Node '' @ repr_str ''2'' @ '' input '' @ repr_str ''mask'' @
             '' expects '' @ repr_str ''MASK'' @ '' but receives '' @ py_repr (JStr ''IMAGE'') @
             '' from node '' @ repr_str ''1'' @ '' slot '' @ py_str (JInt 0))],
          node_count = 2, validated_against_registry = True\<rparr> \<and>
   filter (\<lambda>i. node_id i = ''2'' \<and> check i = ''type_mismatch'')
     (issues \<lparr>valid = True,
          issues = [warning_issue ''type_mismatch'' ''2''
            (''Node '' @ repr_str ''2'' @ '' input '' @ repr_str ''mask'' @
             '' expects '' @ repr_str ''MASK'' @ '' but receives '' @ py_repr (JStr ''IMAGE'') @
             '' from node '' @ repr_str ''1'' @ '' slot '' @ py_str (JInt 0))],
          node_count = 2, validated_against_registry = True\<rparr>) =
     [warning_issue ''type_mismatch'' ''2''
            (''Node '' @ repr_str ''2'' @ '' input '' @ repr_str ''mask'' @
             '' expects '' @ repr_str ''MASK'' @ '' but receives '' @ py_repr (JStr ''IMAGE'') @
             '' from node '' @ repr_str ''1'' @ '' slot '' @ py_str (JInt 0))]"
  (is "?loaded \<and> ?ids \<and> ?node \<and> ?inputs \<and> ?report \<and> ?found")
proof -
  have loaded: ?loaded by code_simp
  have ids: ?ids by code_simp
  have node: ?node by code_simp
  have inputs: ?inputs by code_simp
  have report: ?report by code_simp
  have "concat (map (\<lambda>kv. emitted (type_issue
     \<lparr>nodes = [(''LoadImage'',
         \<lparr>class_type = ''LoadImage'', category = JStr [], display_name = JStr ''LoadImage'',
          description = JStr [], inputs_required = [], inputs_optional = [],
          output_types = [JStr ''IMAGE''], output_names = []\<rparr>),
        (''Blur'',
         \<lparr>class_type = ''Blur'', category = JStr [], display_name = JStr ''Blur'',
          description = JStr [],
          inputs_required = [(''mask'',
             \<lparr>name = ''mask'', type = ''MASK'', required = True, default_val = JNull,
              min_val = JNull, max_val = JNull, options = None\<rparr>)],
          inputs_optional = [],
          output_types = [JStr ''IMAGE''], output_names = []\<rparr>)],
      last_fetch = 1000, fetched = True\<rparr>
     [(''1'', JDict [(''class_type'', JStr ''LoadImage''), (''inputs'', JDict [])]),
      (''2'', JDict [(''class_type'', JStr ''Blur''),
        (''inputs'', JDict [(''mask'', JList [JStr ''1'', JInt 0])])])] ''2''
     (get_or
       [(''class_type'', JStr ''Blur''),
        (''inputs'', JDict [(''mask'', JList [JStr ''1'', JInt 0])])] ''class_type'' (JStr [])) kv)) [(''mask'', JList [JStr ''1'', JInt 0])]) =
     [warning_issue ''type_mismatch'' ''2''
            (''Node '' @ repr_str ''2'' @ '' input '' @ repr_str ''mask'' @
             '' expects '' @ repr_str ''MASK'' @ '' but receives '' @ py_repr (JStr ''IMAGE'') @
             '' from node '' @ repr_str ''1'' @ '' slot '' @ py_str (JInt 0))]"
    unfolding emitted_def by code_simp
  with type_mismatch_issues_of_node [OF loaded ids node inputs report, THEN conjunct1]
  have found: ?found by simp
  from loaded ids node inputs report found show ?thesis by blast
qed

text \<open>
  Claim C8 as stated fails: a source class that declares the empty tag at slot 0, linked
  into an input declared as \<^verbatim>\<open>IMAGE\<close>, resolves on both sides with differing types
  and no wildcard, and the report has no issue: \<^verbatim>\<open>if not output_type: continue\<close> skips
  the empty tag.
\<close>

theorem empty_output_tag_counterexample:
  "source_class
     [(''1'', JDict [(''class_type'', JStr ''Odd''), (''inputs'', JDict [])]),
      (''2'', JDict [(''class_type'', JStr ''Blur''),
                     (''inputs'', JDict [(''image'', JList [JStr ''1'', JInt 0])])])] (py_str (JStr ''1'')) = Inr (Some (JStr ''Odd'')) \<and>
   get_output_type
     \<lparr>nodes = [(''Odd'',
         \<lparr>class_type = ''Odd'', category = JStr [], display_name = JStr ''Odd'',
          description = JStr [], inputs_required = [], inputs_optional = [],
          output_types = [JStr []], output_names = []\<rparr>),
        (''Blur'',
         \<lparr>class_type = ''Blur'', category = JStr [], display_name = JStr ''Blur'',
          description = JStr [],
          inputs_required = [(''image'',
             \<lparr>name = ''image'', type = ''IMAGE'', required = True, default_val = JNull,
              min_val = JNull, max_val = JNull, options = None\<rparr>)],
          inputs_optional = [],
          output_types = [JStr ''IMAGE''], output_names = []\<rparr>)],
      last_fetch = 1000, fetched = True\<rparr> (JStr ''Odd'') (JInt 0) = Inr (Some (JStr [])) \<and>
   get_input_type
     \<lparr>nodes = [(''Odd'',
         \<lparr>class_type = ''Odd'', category = JStr [], display_name = JStr ''Odd'',
          description = JStr [], inputs_required = [], inputs_optional = [],
          output_types = [JStr []], output_names = []\<rparr>),
        (''Blur'',
         \<lparr>class_type = ''Blur'', category = JStr [], display_name = JStr ''Blur'',
          description = JStr [],
          inputs_required = [(''image'',
             \<lparr>name = ''image'', type = ''IMAGE'', required = True, default_val = JNull,
              min_val = JNull, max_val = JNull, options = None\<rparr>)],
          inputs_optional = [],
          output_types = [JStr ''IMAGE''], output_names = []\<rparr>)],
      last_fetch = 1000, fetched = True\<rparr> (JStr ''Blur'') ''image'' = Inr (Some (''IMAGE'', True)) \<and>
   JStr [] \<noteq> JStr ''IMAGE'' \<and> JStr [] \<noteq> JStr ''*'' \<and> ''IMAGE'' \<noteq> ''*'' \<and>
   validate (\<lambda>word possibilities. [])
     \<lparr>nodes = [(''Odd'',
         \<lparr>class_type = ''Odd'', category = JStr [], display_name = JStr ''Odd'',
          description = JStr [], inputs_required = [], inputs_optional = [],
          output_types = [JStr []], output_names = []\<rparr>),
        (''Blur'',
         \<lparr>class_type = ''Blur'', category = JStr [], display_name = JStr ''Blur'',
          description = JStr [],
          inputs_required = [(''image'',
             \<lparr>name = ''image'', type = ''IMAGE'', required = True, default_val = JNull,
              min_val = JNull, max_val = JNull, options = None\<rparr>)],
          inputs_optional = [],
          output_types = [JStr ''IMAGE''], output_names = []\<rparr>)],
      last_fetch = 1000, fetched = True\<rparr>
     [(''1'', JDict [(''class_type'', JStr ''Odd''), (''inputs'', JDict [])]),
      (''2'', JDict [(''class_type'', JStr ''Blur''),
                     (''inputs'', JDict [(''image'', JList [JStr ''1'', JInt 0])])])] =
     Inr \<lparr>valid = True, issues = [], node_count = 2, validated_against_registry = True\<rparr>"
  by code_simp

section \<open>Two-element lists as links\<close>



lemma links_to_iff: "links_to x v \<longleftrightarrow> (\<exists>a b. v = JList [a, b] \<and> py_str a = x)"
  by (cases "(x, v)" rule: links_to.cases) auto









end
